theory Spec2Isabelle
  imports Complex_Main
begin

section \<open>Data model of \<open>context_db_mcp\<close>\<close>

text \<open>
  The development embeds \<open>src/context_db_mcp/vector_store.py\<close> and the tool layer of
  \<open>src/context_db_mcp/server.py\<close>.

  A Python \<open>str\<close> is a list of Unicode code points (\<open>pystr\<close>); \<open>str\<close> embeds a
  literal of the program. Slicing and \<open>len\<close> count code points, as Python does.
  A Python \<open>float\<close> is a \<open>pyfloat\<close>: a real number, an infinity or NaN, compared as
  Python compares floats.
  A \<open>dict\<close> is an association list in insertion order with distinct keys.
  An \<open>Optional[str]\<close> is a \<open>pystr option\<close>; the code tests such fields by truthiness,
  so \<open>None\<close> and the empty string take the same branch (\<open>truthy\<close> below).
\<close>

type_synonym pystr = "nat list"

definition str :: "string \<Rightarrow> pystr" where
  "str s = map of_char s"

text \<open>
  Floats and their comparison \<open><\<close>: every comparison with NaN is false.
  \<open>float_ge\<close> is \<open>>=\<close>.
\<close>

datatype pyfloat = NaN | NegInf | Fin real | PosInf

fun float_lt :: "pyfloat \<Rightarrow> pyfloat \<Rightarrow> bool" where
  "float_lt NaN y = False"
| "float_lt x NaN = False"
| "float_lt x NegInf = False"
| "float_lt NegInf y = True"
| "float_lt PosInf y = False"
| "float_lt (Fin a) PosInf = True"
| "float_lt (Fin a) (Fin b) = (a < b)"

fun float_ge :: "pyfloat \<Rightarrow> pyfloat \<Rightarrow> bool" where
  "float_ge NaN y = False"
| "float_ge x NaN = False"
| "float_ge x NegInf = True"
| "float_ge NegInf y = False"
| "float_ge PosInf y = True"
| "float_ge (Fin a) PosInf = False"
| "float_ge (Fin a) (Fin b) = (b \<le> a)"

datatype attr_value = StrV pystr | NumV pyfloat | BoolV bool

type_synonym AttributesType = "(pystr \<times> attr_value) list"

text \<open>A \<open>Dict[str, Any]\<close> that the code only forwards, never inspects.\<close>

datatype opaque_json = Json string

type_synonym addr = nat

record Settings =
  default_vector_store_id :: "pystr option"
  default_vector_store_name :: "pystr option"
  default_max_results :: int

record VectorStore =
  vs_id :: pystr
  vs_name :: "pystr option"

record VectorStoreFile =
  vsf_id :: pystr
  vsf_status :: pystr
  vsf_attributes :: "AttributesType option"

record SearchContent =
  c_type :: pystr
  c_text :: pystr

record SearchResult =
  sr_file_id :: pystr
  sr_filename :: pystr
  sr_score :: pyfloat
  sr_content :: "SearchContent list"
  sr_attributes :: "AttributesType option"

text \<open>
  The request of an ingestion. Its \<open>attributes\<close> field is a reference to a dictionary
  in the heap, because the code builds the composed attributes by mutating a dictionary.
\<close>

record IngestDocumentRequest =
  content :: pystr
  vector_store_id :: "pystr option"
  vector_store_name :: "pystr option"
  document_id :: "pystr option"
  filename :: "pystr option"
  summary :: "pystr option"
  attributes :: "addr option"
  chunking_strategy :: "opaque_json option"
  mime_type :: pystr

record IngestDocumentResponse =
  ir_vector_store_id :: pystr
  ir_vector_store_name :: "pystr option"
  ir_file_id :: pystr
  ir_filename :: pystr
  ir_status :: pystr
  ir_attributes :: "AttributesType option"

record RetrieveRelevantChunksRequest =
  query :: pystr
  rq_vector_store_id :: "pystr option"
  max_results :: "int option"
  score_threshold :: "pyfloat option"
  attributes_filter :: "AttributesType option"
  rewrite_query :: "bool option"

record RetrievedChunk =
  rc_file_id :: pystr
  rc_filename :: pystr
  rc_score :: pyfloat
  rc_text :: pystr
  rc_attributes :: "AttributesType option"

record RetrieveRelevantChunksResponse =
  rr_vector_store_id :: pystr
  rr_query :: pystr
  results :: "RetrievedChunk list"

text \<open>
  Exceptions. \<open>ValidationError\<close> is what building a request raises, \<open>ValueError\<close> what
  the resolution raises when nothing is configured, \<open>APIError\<close> any exception of the
  remote client.
\<close>

datatype error = ValidationError pystr | ValueError pystr | APIError pystr

fun str_error :: "error \<Rightarrow> pystr" where
  "str_error (ValidationError m) = m"
| "str_error (ValueError m) = m"
| "str_error (APIError m) = m"

section \<open>The remote client, the log and the heap\<close>

text \<open>The file handed to the upload: name, bytes of the content, MIME type.\<close>

type_synonym FileTypes = "pystr \<times> nat list \<times> pystr"

record search_kwargs =
  sk_query :: pystr
  sk_max_num_results :: int
  sk_filters :: "AttributesType option"
  sk_rewrite_query :: "bool option"

text \<open>The calls the code issues on \<open>self._client.vector_stores\<close>.\<close>

datatype call =
    VsRetrieve pystr
  | VsList nat pystr
  | VsCreate pystr "AttributesType option"
  | UploadAndPoll pystr FileTypes "AttributesType option" "opaque_json option"
  | VsSearch pystr search_kwargs

datatype level = DEBUG | INFO | WARNING

text \<open>An argument of a log message: a string or an attribute dictionary.\<close>

datatype log_arg = S pystr | A "AttributesType option"

datatype event =
    Remote call
  | Log level pystr "log_arg list"
  | CtxInfo pystr

text \<open>
  What the listing call returns: an iterator over the stores that fetches the later
  pages of the listing while it is iterated. It yields a store (\<open>Yield\<close>), or ends
  (\<open>Stop\<close>), or raises because the request for the next page failed (\<open>Raise\<close>).
\<close>

datatype store_pages = Stop | Yield VectorStore store_pages | Raise error

text \<open>
  The remote service is opaque: a client is the answers it gives. Every answer is either
  an exception or a value. The answer of the search is the list of all its results, or
  the exception raised by the call or while the results are read; the loop over the
  results records no event, so the two leave the same state.
\<close>

record client =
  retrieve_store :: "pystr \<Rightarrow> error + VectorStore"
  list_stores :: "error + store_pages"
  create_store :: "pystr \<Rightarrow> AttributesType option \<Rightarrow> error + VectorStore"
  upload_and_poll ::
    "pystr \<Rightarrow> FileTypes \<Rightarrow> AttributesType option \<Rightarrow> opaque_json option
       \<Rightarrow> error + VectorStoreFile"
  search_store :: "pystr \<Rightarrow> search_kwargs \<Rightarrow> error + SearchResult list"

text \<open>
  What the code reads from its runtime: the two readings of the clock, and the built-in
  \<open>str.lower\<close>, whose Unicode tables are not part of the repository and which is
  therefore a parameter.
\<close>

record runtime =
  timestamp :: int
  isoformat :: pystr
  str_lower :: "pystr \<Rightarrow> pystr"

text \<open>
  The state threaded through every operation: the heap of dictionaries (an address is an
  index) and the events so far, oldest first.
\<close>

record state =
  heap :: "AttributesType list"
  events :: "event list"

definition emit :: "event \<Rightarrow> state \<Rightarrow> state" where
  "emit e s = s\<lparr>events := events s @ [e]\<rparr>"

definition calls :: "state \<Rightarrow> call list" where
  "calls s = concat (map (\<lambda>e. case e of Remote c \<Rightarrow> [c] | _ \<Rightarrow> []) (events s))"

definition warnings :: "state \<Rightarrow> event list" where
  "warnings s = filter (\<lambda>e. case e of Log WARNING _ _ \<Rightarrow> True | _ \<Rightarrow> False) (events s)"

text \<open>The calls issued between an earlier state and a later one.\<close>

definition new_calls :: "state \<Rightarrow> state \<Rightarrow> call list" where
  "new_calls s s' = drop (length (calls s)) (calls s')"

definition is_create :: "call \<Rightarrow> bool" where
  "is_create c = (case c of VsCreate _ _ \<Rightarrow> True | _ \<Rightarrow> False)"

text \<open>Truthiness of an \<open>Optional[str]\<close>: the string when it is there and not empty.\<close>

definition truthy :: "pystr option \<Rightarrow> pystr option" where
  "truthy x = (case x of None \<Rightarrow> None | Some s \<Rightarrow> if s = [] then None else Some s)"

section \<open>Store resolution\<close>

text \<open>
  The loop \<open>for store in pages\<close> of \<open>_find_vector_store_by_name\<close>: the first store whose
  name equals the given one, \<open>None\<close> when the iterator ends without one, and the
  exception when fetching a later page raises before a match.
\<close>

fun first_named :: "pystr \<Rightarrow> store_pages \<Rightarrow> error + VectorStore option" where
  "first_named name Stop = Inr None"
| "first_named name (Yield store rest) =
     (if vs_name store = Some name then Inr (Some store) else first_named name rest)"
| "first_named name (Raise exc) = Inl exc"

text \<open>
  \<open>_find_vector_store_by_name\<close>: only the listing call is inside \<open>try\<close>; an exception
  of that call is logged as a warning and the answer is \<open>None\<close>. The loop is outside
  \<open>try\<close>.
\<close>

definition find_vector_store_by_name ::
    "client \<Rightarrow> pystr \<Rightarrow> state \<Rightarrow> (error + VectorStore option) \<times> state" where
  "find_vector_store_by_name cl name s =
     (let s1 = emit (Remote (VsList 100 (str ''desc''))) s in
      case list_stores cl of
        Inl exc \<Rightarrow>
          (Inr None,
           emit (Log WARNING (str ''Failed to list vector stores: %s'') [S (str_error exc)]) s1)
      | Inr pages \<Rightarrow> (first_named name pages, s1))"

definition fetch_store :: "client \<Rightarrow> pystr \<Rightarrow> state \<Rightarrow> (error + VectorStore) \<times> state" where
  "fetch_store cl i s = (retrieve_store cl i, emit (Remote (VsRetrieve i)) s)"

definition make_store ::
    "client \<Rightarrow> pystr \<Rightarrow> AttributesType option \<Rightarrow> state \<Rightarrow> (error + VectorStore) \<times> state" where
  "make_store cl n metadata s = (create_store cl n metadata, emit (Remote (VsCreate n metadata)) s)"

definition ensure_vector_store ::
    "Settings \<Rightarrow> client \<Rightarrow> pystr option \<Rightarrow> pystr option \<Rightarrow> AttributesType option
       \<Rightarrow> state \<Rightarrow> (error + VectorStore) \<times> state" where
  "ensure_vector_store st cl vid vname metadata s =
     (case truthy vid of
        Some i \<Rightarrow>
          fetch_store cl i (emit (Log DEBUG (str ''Using provided vector store id %s'') [S i]) s)
      | None \<Rightarrow>
         (case truthy vname of
            None \<Rightarrow>
              (case truthy (default_vector_store_id st) of
                 Some fallback_id \<Rightarrow>
                   fetch_store cl fallback_id
                     (emit (Log DEBUG (str ''Falling back to configured vector store id %s'')
                        [S fallback_id]) s)
               | None \<Rightarrow>
                  (case truthy (default_vector_store_name st) of
                     Some fallback_name \<Rightarrow>
                       (case find_vector_store_by_name cl fallback_name
                               (emit (Log DEBUG
                                  (str ''Attempting to locate default vector store named %s'')
                                  [S fallback_name]) s) of
                          (Inl exc, s1) \<Rightarrow> (Inl exc, s1)
                        | (Inr (Some existing), s1) \<Rightarrow> (Inr existing, s1)
                        | (Inr None, s1) \<Rightarrow>
                            make_store cl fallback_name metadata
                              (emit (Log INFO (str ''Creating default vector store named %s'')
                                 [S fallback_name]) s1))
                   | None \<Rightarrow>
                       (Inl (ValueError (str
                          ''No vector store identifier was provided and no defaults are configured.'')),
                        s)))
          | Some n \<Rightarrow>
              (case find_vector_store_by_name cl n
                      (emit (Log DEBUG (str ''Attempting to locate vector store named %s'')
                         [S n]) s) of
                 (Inl exc, s1) \<Rightarrow> (Inl exc, s1)
               | (Inr (Some existing_store), s1) \<Rightarrow> (Inr existing_store, s1)
               | (Inr None, s1) \<Rightarrow>
                   make_store cl n metadata
                     (emit (Log INFO (str ''Creating vector store named %s'') [S n]) s1))))"

section \<open>Strings\<close>

text \<open>\<open>s.replace(" ", "-")\<close>.\<close>

definition replace_spaces :: "pystr \<Rightarrow> pystr" where
  "replace_spaces s = map (\<lambda>c. if c = 32 then 45 else c) s"

text \<open>
  \<open>str.isspace\<close> of a code point (the whitespace of Unicode: the ASCII controls and
  space, U+0085, U+00A0, U+1680, U+2000 to U+200A, U+2028, U+2029, U+202F, U+205F,
  U+3000), and \<open>str.strip()\<close>.
\<close>

definition is_space :: "nat \<Rightarrow> bool" where
  "is_space c =
     (c \<in> set [9, 10, 11, 12, 13, 28, 29, 30, 31, 32, 133, 160, 5760,
                8192, 8193, 8194, 8195, 8196, 8197, 8198, 8199, 8200, 8201, 8202,
                8232, 8233, 8239, 8287, 12288])"

definition strip :: "pystr \<Rightarrow> pystr" where
  "strip s = rev (dropWhile is_space (rev (dropWhile is_space s)))"

text \<open>The decimal rendering of an integer, as an f-string prints it.\<close>

fun str_nat :: "nat \<Rightarrow> pystr" where
  "str_nat n =
     (if n < 10 then [48 + n]
      else str_nat (n div 10) @ [48 + n mod 10])"

declare str_nat.simps [simp del]

definition str_int :: "int \<Rightarrow> pystr" where
  "str_int i = (if i < 0 then 45 # str_nat (nat (- i)) else str_nat (nat i))"

text \<open>\<open>sep.join(xs)\<close>.\<close>

fun join :: "pystr \<Rightarrow> pystr list \<Rightarrow> pystr" where
  "join sep [] = []"
| "join sep [x] = x"
| "join sep (x # y # ys) = x @ sep @ join sep (y # ys)"

text \<open>
  \<open>content.encode("utf-8")\<close>. A string of a request holds no surrogate code point
  (building the request rejects them), so the encoding does not raise.
\<close>

definition encode_utf8 :: "pystr \<Rightarrow> nat list" where
  "encode_utf8 s =
     concat (map (\<lambda>n.
       if n < 128 then [n]
       else if n < 2048 then [192 + n div 64, 128 + n mod 64]
       else if n < 65536 then [224 + n div 4096, 128 + (n div 64) mod 64, 128 + n mod 64]
       else [240 + n div 262144, 128 + (n div 4096) mod 64, 128 + (n div 64) mod 64,
             128 + n mod 64]) s)"

section \<open>Ingestion\<close>

definition prepare_upload :: "pystr \<Rightarrow> pystr \<Rightarrow> pystr \<Rightarrow> FileTypes" where
  "prepare_upload fname cont mime = (fname, encode_utf8 cont, mime)"

text \<open>
  \<open>_derive_filename\<close>. The slug is \<open>request.summary.lower().replace(" ", "-")[:40]\<close>:
  lowered, then replaced, then truncated.
\<close>

definition derive_filename :: "runtime \<Rightarrow> IngestDocumentRequest \<Rightarrow> pystr" where
  "derive_filename rt request =
     (case truthy (document_id request) of
        Some d \<Rightarrow> d @ str ''.txt''
      | None \<Rightarrow>
         (case truthy (summary request) of
            Some sm \<Rightarrow>
              (let slug = take 40 (replace_spaces (str_lower rt sm)) in
               (if slug \<noteq> [] then slug else str ''context'')
                 @ str ''-'' @ str_int (timestamp rt) @ str ''.txt'')
          | None \<Rightarrow> str ''context-'' @ str_int (timestamp rt) @ str ''.txt''))"

text \<open>
  The heap. \<open>alloc\<close> is \<open>dict(d)\<close>: a new dictionary with the entries of \<open>d\<close>.
  \<open>deref\<close> reads a dictionary; requests refer to allocated dictionaries only, and an
  address outside the heap reads as the empty dictionary.
  \<open>setdefault\<close> is \<open>dict.setdefault\<close> on the dictionary at an address.
\<close>

definition alloc :: "AttributesType \<Rightarrow> state \<Rightarrow> addr \<times> state" where
  "alloc d s = (length (heap s), s\<lparr>heap := heap s @ [d]\<rparr>)"

definition deref :: "state \<Rightarrow> addr \<Rightarrow> AttributesType" where
  "deref s a = (if a < length (heap s) then heap s ! a else [])"

definition dict_setdefault :: "pystr \<Rightarrow> attr_value \<Rightarrow> AttributesType \<Rightarrow> AttributesType" where
  "dict_setdefault k v d = (if k \<in> set (map fst d) then d else d @ [(k, v)])"

definition setdefault :: "addr \<Rightarrow> pystr \<Rightarrow> attr_value \<Rightarrow> state \<Rightarrow> state" where
  "setdefault a k v s = s\<lparr>heap := (heap s)[a := dict_setdefault k v (deref s a)]\<rparr>"

text \<open>\<open>request.attributes or {}\<close>: the entries of the caller's dictionary, if any.\<close>

definition attributes_or_empty :: "IngestDocumentRequest \<Rightarrow> state \<Rightarrow> AttributesType" where
  "attributes_or_empty request s = (case attributes request of None \<Rightarrow> [] | Some r \<Rightarrow> deref s r)"

text \<open>\<open>x or None\<close> on a dictionary.\<close>

definition or_None :: "AttributesType \<Rightarrow> AttributesType option" where
  "or_None d = (if d \<noteq> [] then Some d else None)"

text \<open>
  The dictionary that the three \<open>setdefault\<close> calls of \<open>ingest\<close> build from the entries
  \<open>d\<close> of the copy, as a value. Lemma \<open>ingest_success\<close> shows that the heap operations of
  \<open>ingest\<close> compute it.
\<close>

definition composed_attributes ::
    "runtime \<Rightarrow> IngestDocumentRequest \<Rightarrow> AttributesType \<Rightarrow> AttributesType" where
  "composed_attributes rt request d =
     (let d1 = (case truthy (document_id request) of
                  Some x \<Rightarrow> dict_setdefault (str ''document_id'') (StrV x) d | None \<Rightarrow> d);
          d2 = (case truthy (summary request) of
                  Some sm \<Rightarrow> dict_setdefault (str ''summary'') (StrV sm) d1 | None \<Rightarrow> d1)
      in dict_setdefault (str ''ingested_at'') (StrV (isoformat rt)) d2)"

text \<open>
  The slug as the specification words it: the first 40 characters of the summary,
  lowercased, spaces replaced with hyphens. \<open>derive_filename\<close> above is the code.
\<close>

definition spec_slug :: "runtime \<Rightarrow> pystr \<Rightarrow> pystr" where
  "spec_slug rt sm = replace_spaces (str_lower rt (take 40 sm))"

text \<open>\<open>OpenAIContextStore.ingest\<close>.\<close>

definition ingest ::
    "Settings \<Rightarrow> client \<Rightarrow> runtime \<Rightarrow> IngestDocumentRequest \<Rightarrow> state
       \<Rightarrow> (error + IngestDocumentResponse) \<times> state" where
  "ingest st cl rt request s =
     (let metadata = (case truthy (vector_store_name request) of
                        Some _ \<Rightarrow> Some [] | None \<Rightarrow> None) in
      case ensure_vector_store st cl (vector_store_id request) (vector_store_name request)
             metadata s of
        (Inl e, s1) \<Rightarrow> (Inl e, s1)
      | (Inr vector_store, s1) \<Rightarrow>
         (let fname = (case truthy (filename request) of
                         Some f \<Rightarrow> f | None \<Rightarrow> derive_filename rt request);
              (a, s2) = alloc (attributes_or_empty request s1) s1;
              s3 = (case truthy (document_id request) of
                      Some d \<Rightarrow> setdefault a (str ''document_id'') (StrV d) s2 | None \<Rightarrow> s2);
              s4 = (case truthy (summary request) of
                      Some sm \<Rightarrow> setdefault a (str ''summary'') (StrV sm) s3 | None \<Rightarrow> s3);
              s5 = setdefault a (str ''ingested_at'') (StrV (isoformat rt)) s4;
              upload = prepare_upload fname (content request) (mime_type request);
              s6 = emit (Log INFO (str ''Uploading document %s to vector store %s'')
                           [S fname, S (vs_id vector_store)]) s5;
              c = UploadAndPoll (vs_id vector_store) upload (or_None (deref s6 a))
                    (chunking_strategy request);
              s7 = emit (Remote c) s6
          in case upload_and_poll cl (vs_id vector_store) upload (or_None (deref s6 a))
                    (chunking_strategy request) of
               Inl e \<Rightarrow> (Inl e, s7)
             | Inr vector_store_file \<Rightarrow>
                 (Inr \<lparr>ir_vector_store_id = vs_id vector_store,
                       ir_vector_store_name = vs_name vector_store,
                       ir_file_id = vsf_id vector_store_file,
                       ir_filename = fname,
                       ir_status = vsf_status vector_store_file,
                       ir_attributes = vsf_attributes vector_store_file\<rparr>,
                  if vsf_status vector_store_file \<noteq> str ''completed''
                  then emit (Log WARNING (str ''Vector store file %s completed with status %s'')
                               [S (vsf_id vector_store_file), S (vsf_status vector_store_file)]) s7
                  else s7)))"

section \<open>Retrieval\<close>

text \<open>The text of a result: its segments of type \<open>text\<close>, joined by a blank line.\<close>

definition result_text :: "SearchResult \<Rightarrow> pystr" where
  "result_text r =
     join [10, 10] (map c_text (filter (\<lambda>chunk. c_type chunk = str ''text'') (sr_content r)))"

definition chunk_of :: "SearchResult \<Rightarrow> RetrievedChunk" where
  "chunk_of r =
     \<lparr>rc_file_id = sr_file_id r, rc_filename = sr_filename r, rc_score = sr_score r,
      rc_text = result_text r, rc_attributes = sr_attributes r\<rparr>"

text \<open>
  The loop over the search results; \<open>collected\<close> is the list built so far. A result is
  skipped when a threshold is given and \<open>result.score < threshold\<close>.
\<close>

fun collect ::
    "pyfloat option \<Rightarrow> SearchResult list \<Rightarrow> RetrievedChunk list \<Rightarrow> RetrievedChunk list" where
  "collect thr [] collected = collected"
| "collect thr (r # rs) collected =
     (if thr \<noteq> None \<and> float_lt (sr_score r) (the thr) then collect thr rs collected
      else collect thr rs (collected @ [chunk_of r]))"

text \<open>
  The keyword arguments of the search that \<open>retrieve\<close> builds: the query, the result cap
  (\<open>request.max_results or default\<close>), the attribute filter when it is not empty, the rewrite
  flag when it is given.
\<close>

definition build_search_kwargs :: "Settings \<Rightarrow> RetrieveRelevantChunksRequest \<Rightarrow> search_kwargs" where
  "build_search_kwargs st request =
     \<lparr>sk_query = query request,
      sk_max_num_results =
        (case max_results request of
           Some m \<Rightarrow> if m \<noteq> 0 then m else default_max_results st
         | None \<Rightarrow> default_max_results st),
      sk_filters = (case attributes_filter request of
                      Some f \<Rightarrow> if f \<noteq> [] then Some f else None
                    | None \<Rightarrow> None),
      sk_rewrite_query = rewrite_query request\<rparr>"

text \<open>\<open>OpenAIContextStore.retrieve\<close>.\<close>

definition retrieve ::
    "Settings \<Rightarrow> client \<Rightarrow> RetrieveRelevantChunksRequest \<Rightarrow> state
       \<Rightarrow> (error + RetrieveRelevantChunksResponse) \<times> state" where
  "retrieve st cl request s =
     (case ensure_vector_store st cl (rq_vector_store_id request) None None s of
        (Inl e, s1) \<Rightarrow> (Inl e, s1)
      | (Inr vector_store, s1) \<Rightarrow>
         (let kw = build_search_kwargs st request;
              s2 = emit (Log DEBUG (str ''Searching vector store %s for query %s'')
                           [S (vs_id vector_store), S (query request)]) s1;
              s3 = emit (Remote (VsSearch (vs_id vector_store) kw)) s2
          in case search_store cl (vs_id vector_store) kw of
               Inl e \<Rightarrow> (Inl e, s3)
             | Inr search_results \<Rightarrow>
                 (Inr \<lparr>rr_vector_store_id = vs_id vector_store,
                       rr_query = query request,
                       results = collect (score_threshold request) search_results []\<rparr>,
                  s3)))"

section \<open>The tool layer\<close>

text \<open>
  Building a request object runs its validators: the bounds of \<open>max_results\<close>
  (\<open>ge=1\<close>, \<open>le=50\<close>) and the \<open>model_validator\<close> of each class.
\<close>

definition IngestDocumentRequest_validate ::
    "IngestDocumentRequest \<Rightarrow> error + IngestDocumentRequest" where
  "IngestDocumentRequest_validate r =
     (if strip (content r) = []
      then Inl (ValidationError
                  (str ''The document content is empty after stripping whitespace.''))
      else Inr r)"

definition RetrieveRelevantChunksRequest_validate ::
    "RetrieveRelevantChunksRequest \<Rightarrow> error + RetrieveRelevantChunksRequest" where
  "RetrieveRelevantChunksRequest_validate r =
     (if (case max_results r of Some m \<Rightarrow> m < 1 | None \<Rightarrow> False)
      then Inl (ValidationError (str ''Input should be greater than or equal to 1''))
      else if (case max_results r of Some m \<Rightarrow> 50 < m | None \<Rightarrow> False)
      then Inl (ValidationError (str ''Input should be less than or equal to 50''))
      else if strip (query r) = []
      then Inl (ValidationError (str ''The search query is empty after stripping whitespace.''))
      else Inr r)"

text \<open>
  The tools of \<open>server.py\<close>. The framework builds the request from the arguments of the
  call before the body of the tool runs; a request that does not validate never reaches it.
\<close>

definition ingest_document ::
    "Settings \<Rightarrow> client \<Rightarrow> runtime \<Rightarrow> IngestDocumentRequest \<Rightarrow> state
       \<Rightarrow> (error + IngestDocumentResponse) \<times> state" where
  "ingest_document st cl rt args s =
     (case IngestDocumentRequest_validate args of
        Inl e \<Rightarrow> (Inl e, s)
      | Inr request \<Rightarrow>
         (case ingest st cl rt request
                 (emit (CtxInfo (str ''Ingesting document into vector store...'')) s) of
            (Inl e, s1) \<Rightarrow> (Inl e, s1)
          | (Inr result, s1) \<Rightarrow>
              (Inr result,
               emit (Log DEBUG (str ''Attributes applied to file %s: %s'')
                       [S (ir_file_id result), A (ir_attributes result)])
                 (emit (CtxInfo (str ''Stored file '' @ ir_file_id result
                                   @ str '' in vector store '' @ ir_vector_store_id result
                                   @ str '' with status '' @ ir_status result)) s1))))"

definition retrieve_relevant_chunks ::
    "Settings \<Rightarrow> client \<Rightarrow> RetrieveRelevantChunksRequest \<Rightarrow> state
       \<Rightarrow> (error + RetrieveRelevantChunksResponse) \<times> state" where
  "retrieve_relevant_chunks st cl args s =
     (case RetrieveRelevantChunksRequest_validate args of
        Inl e \<Rightarrow> (Inl e, s)
      | Inr request \<Rightarrow>
         (case retrieve st cl request
                 (emit (CtxInfo (str ''Retrieving relevant chunks from vector store...'')) s) of
            (Inl e, s1) \<Rightarrow> (Inl e, s1)
          | (Inr result, s1) \<Rightarrow>
              (Inr result,
               emit (CtxInfo (str ''Found '' @ str_int (int (length (results result)))
                                @ str '' relevant chunks from vector store ''
                                @ rr_vector_store_id result)) s1)))"

section \<open>Concrete settings, clients and requests\<close>

text \<open>Inputs on which the operations are run below.\<close>

definition no_defaults :: Settings where
  "no_defaults =
     \<lparr>default_vector_store_id = None, default_vector_store_name = None,
      default_max_results = 10\<rparr>"

definition docs_default :: Settings where
  "docs_default = no_defaults\<lparr>default_vector_store_name := Some (str ''docs'')\<rparr>"

definition id_default :: Settings where
  "id_default = docs_default\<lparr>default_vector_store_id := Some (str ''vs_default'')\<rparr>"

definition high_result :: SearchResult where
  "high_result =
     \<lparr>sr_file_id = str ''file1'', sr_filename = str ''doc1.txt'', sr_score = Fin (95 / 100),
      sr_content = [\<lparr>c_type = str ''text'', c_text = str ''High score content''\<rparr>],
      sr_attributes = Some []\<rparr>"

definition edge_result :: SearchResult where
  "edge_result = high_result\<lparr>sr_file_id := str ''file3'', sr_score := Fin (8 / 10)\<rparr>"

definition low_result :: SearchResult where
  "low_result = high_result\<lparr>sr_file_id := str ''file2'', sr_score := Fin (6 / 10)\<rparr>"

definition nan_result :: SearchResult where
  "nan_result = high_result\<lparr>sr_file_id := str ''file4'', sr_score := NaN\<rparr>"

text \<open>The iterator over a listing that is fetched without an error.\<close>

fun pages_of :: "VectorStore list \<Rightarrow> store_pages" where
  "pages_of [] = Stop"
| "pages_of (x # xs) = Yield x (pages_of xs)"

text \<open>A client whose listing returns the given stores and whose other calls succeed.\<close>

definition mock_client :: "VectorStore list \<Rightarrow> client" where
  "mock_client stores =
     \<lparr>retrieve_store = (\<lambda>i. Inr \<lparr>vs_id = i, vs_name = None\<rparr>),
      list_stores = Inr (pages_of stores),
      create_store = (\<lambda>n md. Inr \<lparr>vs_id = str ''vs_new'', vs_name = Some n\<rparr>),
      upload_and_poll = (\<lambda>v f a c.
        Inr \<lparr>vsf_id = str ''file_1'', vsf_status = str ''completed'', vsf_attributes = a\<rparr>),
      search_store = (\<lambda>v kw. Inr [high_result, low_result, edge_result])\<rparr>"

definition failing_list_client :: client where
  "failing_list_client =
     (mock_client [])\<lparr>list_stores := Inl (APIError (str ''connection reset''))\<rparr>"

definition docs_store :: VectorStore where
  "docs_store = \<lparr>vs_id = str ''vs_1'', vs_name = Some (str ''docs'')\<rparr>"

definition other_store :: VectorStore where
  "other_store = \<lparr>vs_id = str ''vs_2'', vs_name = Some (str ''other'')\<rparr>"

text \<open>
  A client whose listing call succeeds and yields one store named \<open>other\<close>, and whose
  request for the next page of the listing fails.
\<close>

definition failing_page_client :: client where
  "failing_page_client =
     (mock_client [])\<lparr>list_stores :=
        Inr (Yield other_store (Raise (APIError (str ''connection reset''))))\<rparr>"

text \<open>
  \<open>str.lower\<close> on strings whose code points are below U+0100 or are U+0130: the letters
  A-Z and the accented capitals of Latin-1 move by 32, and U+0130 (capital I with dot
  above) becomes the two code points U+0069 U+0307.
\<close>

definition lower_code_point :: "nat \<Rightarrow> pystr" where
  "lower_code_point n =
     (if (65 \<le> n \<and> n \<le> 90) \<or> (192 \<le> n \<and> n \<le> 222 \<and> n \<noteq> 215) then [n + 32]
      else if n = 304 then [105, 775]
      else [n])"

definition lower_latin :: "pystr \<Rightarrow> pystr" where
  "lower_latin s = concat (map lower_code_point s)"

definition utc_now :: runtime where
  "utc_now =
     \<lparr>timestamp = 1700000000, isoformat = str ''2023-11-14T22:13:20+00:00'',
      str_lower = lower_latin\<rparr>"

definition empty_state :: state where
  "empty_state = \<lparr>heap = [], events = []\<rparr>"

text \<open>A state whose heap holds one dictionary of the caller, at address 0.\<close>

definition caller_state :: state where
  "caller_state =
     \<lparr>heap = [[(str ''ingested_at'', StrV (str ''1999-01-01T00:00:00+00:00'')),
               (str ''document_id'', StrV (str ''mine''))]],
      events = []\<rparr>"

definition hello_request :: IngestDocumentRequest where
  "hello_request =
     \<lparr>content = str ''Hello world'', vector_store_id = None, vector_store_name = None,
      document_id = Some (str ''doc1''), filename = None, summary = None, attributes = None,
      chunking_strategy = None, mime_type = str ''text/plain''\<rparr>"

text \<open>The same request with the caller's dictionary attached.\<close>

definition caller_request :: IngestDocumentRequest where
  "caller_request = hello_request\<lparr>attributes := Some 0\<rparr>"

text \<open>
  Requests without a document id: with a summary, with an empty document id, and with
  a summary of 40 times U+0130.
\<close>

definition summary_request :: IngestDocumentRequest where
  "summary_request =
     hello_request\<lparr>document_id := None, summary := Some (str ''Release Notes'')\<rparr>"

definition empty_id_request :: IngestDocumentRequest where
  "empty_id_request = hello_request\<lparr>document_id := Some []\<rparr>"

definition dotted_request :: IngestDocumentRequest where
  "dotted_request = hello_request\<lparr>document_id := None, summary := Some (replicate 40 304)\<rparr>"

definition auth_request :: RetrieveRelevantChunksRequest where
  "auth_request =
     \<lparr>query = str ''auth'', rq_vector_store_id = None, max_results = None,
      score_threshold = Some (Fin (8 / 10)), attributes_filter = None, rewrite_query = None\<rparr>"

section \<open>Facts about strings and floats\<close>

lemma str_eq_iff [simp]: "str a = str b \<longleftrightarrow> a = b"
proof -
  have "inj (of_char :: char \<Rightarrow> nat)" by (rule inj_of_char)
  then show ?thesis by (simp add: str_def inj_map_eq_map)
qed

lemma str_eq_Nil [simp]: "str a = [] \<longleftrightarrow> a = []" "[] = str a \<longleftrightarrow> a = []"
  by (auto simp: str_def)

lemma length_str [simp]: "length (str a) = length a"
  by (simp add: str_def)

lemma str_append [simp]: "str a @ str b = str (a @ b)"
  by (simp add: str_def)

lemma float_lt_NaN [simp]: "\<not> float_lt x NaN" "\<not> float_lt NaN y"
  by (cases x; simp) simp

lemma float_ge_NaN [simp]: "\<not> float_ge x NaN" "\<not> float_ge NaN y"
  by (cases x; simp) simp

text \<open>Away from NaN, \<open>>=\<close> is the negation of \<open><\<close>.\<close>

lemma float_ge_iff_not_lt:
  "x \<noteq> NaN \<Longrightarrow> y \<noteq> NaN \<Longrightarrow> float_ge x y \<longleftrightarrow> \<not> float_lt x y"
  by (cases x; cases y) auto

section \<open>Basic facts about states\<close>

lemma calls_emit_Remote [simp]: "calls (emit (Remote c) s) = calls s @ [c]"
  by (simp add: calls_def emit_def)

lemma calls_emit_Log [simp]: "calls (emit (Log l m as) s) = calls s"
  by (simp add: calls_def emit_def)

lemma calls_emit_CtxInfo [simp]: "calls (emit (CtxInfo m) s) = calls s"
  by (simp add: calls_def emit_def)

lemma heap_emit [simp]: "heap (emit e s) = heap s"
  by (simp add: emit_def)

lemma events_emit [simp]: "events (emit e s) = events s @ [e]"
  by (simp add: emit_def)

lemma new_calls_append: "calls s' = calls s @ cs \<Longrightarrow> new_calls s s' = cs"
  by (simp add: new_calls_def)

lemma truthy_cases: "truthy x = None \<or> (\<exists>v. truthy x = Some v \<and> x = Some v \<and> v \<noteq> [])"
  by (cases x) (auto simp: truthy_def)

section \<open>Facts about the resolution\<close>

lemma fetch_store_eq:
  "fst (fetch_store cl i s) = retrieve_store cl i"
  "calls (snd (fetch_store cl i s)) = calls s @ [VsRetrieve i]"
  "heap (snd (fetch_store cl i s)) = heap s"
  by (simp_all add: fetch_store_def)

lemma make_store_eq:
  "fst (make_store cl n md s) = create_store cl n md"
  "calls (snd (make_store cl n md s)) = calls s @ [VsCreate n md]"
  "heap (snd (make_store cl n md s)) = heap s"
  by (simp_all add: make_store_def)

lemma find_vector_store_by_name_eq:
  "fst (find_vector_store_by_name cl n s) =
     (case list_stores cl of Inl e \<Rightarrow> Inr None
      | Inr pages \<Rightarrow> first_named n pages)"
  "calls (snd (find_vector_store_by_name cl n s)) = calls s @ [VsList 100 (str ''desc'')]"
  "heap (snd (find_vector_store_by_name cl n s)) = heap s"
  by (simp_all add: find_vector_store_by_name_def Let_def split: sum.splits)

text \<open>The find-or-create step shared by the two name-based branches.\<close>

lemma find_or_create:
  assumes "R = (case find_vector_store_by_name cl n s0 of
                  (Inl exc, s1) \<Rightarrow> (Inl exc, s1)
                | (Inr (Some x), s1) \<Rightarrow> (Inr x, s1)
                | (Inr None, s1) \<Rightarrow> make_store cl n md (emit (Log INFO m [S n]) s1))"
    and "calls s0 = calls s" and "heap s0 = heap s"
  shows "(case (case list_stores cl of Inl e \<Rightarrow> Inr None
                | Inr pages \<Rightarrow> first_named n pages) of
            Inl exc \<Rightarrow> fst R = Inl exc \<and> calls (snd R) = calls s @ [VsList 100 (str ''desc'')]
          | Inr (Some x) \<Rightarrow>
              fst R = Inr x \<and> calls (snd R) = calls s @ [VsList 100 (str ''desc'')]
          | Inr None \<Rightarrow> fst R = create_store cl n md
                    \<and> calls (snd R) = calls s @ [VsList 100 (str ''desc''), VsCreate n md])"
    and "heap (snd R) = heap s"
proof -
  obtain res s1 where f: "find_vector_store_by_name cl n s0 = (res, s1)"
    by (cases "find_vector_store_by_name cl n s0")
  from find_vector_store_by_name_eq [of cl n s0] f
  have r: "res = (case list_stores cl of Inl e \<Rightarrow> Inr None
                  | Inr pages \<Rightarrow> first_named n pages)"
    and c: "calls s1 = calls s0 @ [VsList 100 (str ''desc'')]"
    and h: "heap s1 = heap s0"
    by simp_all
  show "(case (case list_stores cl of Inl e \<Rightarrow> Inr None
                | Inr pages \<Rightarrow> first_named n pages) of
            Inl exc \<Rightarrow> fst R = Inl exc \<and> calls (snd R) = calls s @ [VsList 100 (str ''desc'')]
          | Inr (Some x) \<Rightarrow>
              fst R = Inr x \<and> calls (snd R) = calls s @ [VsList 100 (str ''desc'')]
          | Inr None \<Rightarrow> fst R = create_store cl n md
                    \<and> calls (snd R) = calls s @ [VsList 100 (str ''desc''), VsCreate n md])"
    unfolding r [symmetric] using assms(1,2) f c
    by (cases res) (auto simp: make_store_eq split: option.splits)
  show "heap (snd R) = heap s"
    using assms(1,3) f h by (cases res) (auto simp: make_store_eq split: option.splits)
qed

lemma ensure_by_id:
  "truthy vid = Some i \<Longrightarrow>
     ensure_vector_store st cl vid vname md s =
       fetch_store cl i (emit (Log DEBUG (str ''Using provided vector store id %s'') [S i]) s)"
  by (simp add: ensure_vector_store_def)

lemma ensure_by_name:
  "truthy vid = None \<Longrightarrow> truthy vname = Some n \<Longrightarrow>
     ensure_vector_store st cl vid vname md s =
       (case find_vector_store_by_name cl n
               (emit (Log DEBUG (str ''Attempting to locate vector store named %s'') [S n]) s) of
          (Inl exc, s1) \<Rightarrow> (Inl exc, s1)
        | (Inr (Some x), s1) \<Rightarrow> (Inr x, s1)
        | (Inr None, s1) \<Rightarrow>
            make_store cl n md (emit (Log INFO (str ''Creating vector store named %s'') [S n]) s1))"
  by (simp add: ensure_vector_store_def)

lemma ensure_by_default_id:
  "truthy vid = None \<Longrightarrow> truthy vname = None \<Longrightarrow>
   truthy (default_vector_store_id st) = Some i \<Longrightarrow>
     ensure_vector_store st cl vid vname md s =
       fetch_store cl i
         (emit (Log DEBUG (str ''Falling back to configured vector store id %s'') [S i]) s)"
  by (simp add: ensure_vector_store_def)

lemma ensure_by_default_name:
  "truthy vid = None \<Longrightarrow> truthy vname = None \<Longrightarrow>
   truthy (default_vector_store_id st) = None \<Longrightarrow>
   truthy (default_vector_store_name st) = Some n \<Longrightarrow>
     ensure_vector_store st cl vid vname md s =
       (case find_vector_store_by_name cl n
               (emit (Log DEBUG (str ''Attempting to locate default vector store named %s'') [S n]) s) of
          (Inl exc, s1) \<Rightarrow> (Inl exc, s1)
        | (Inr (Some x), s1) \<Rightarrow> (Inr x, s1)
        | (Inr None, s1) \<Rightarrow>
            make_store cl n md
              (emit (Log INFO (str ''Creating default vector store named %s'') [S n]) s1))"
  by (simp add: ensure_vector_store_def)

lemma ensure_unconfigured:
  "truthy vid = None \<Longrightarrow> truthy vname = None \<Longrightarrow>
   truthy (default_vector_store_id st) = None \<Longrightarrow>
   truthy (default_vector_store_name st) = None \<Longrightarrow>
     ensure_vector_store st cl vid vname md s =
       (Inl (ValueError
          (str ''No vector store identifier was provided and no defaults are configured.'')), s)"
  by (simp add: ensure_vector_store_def)

text \<open>The resolution never touches the heap.\<close>

lemma heap_ensure_vector_store [simp]:
  "heap (snd (ensure_vector_store st cl vid vname md s)) = heap s"
proof -
  consider i where "truthy vid = Some i"
    | n where "truthy vid = None" "truthy vname = Some n"
    | i where "truthy vid = None" "truthy vname = None"
        "truthy (default_vector_store_id st) = Some i"
    | n where "truthy vid = None" "truthy vname = None"
        "truthy (default_vector_store_id st) = None"
        "truthy (default_vector_store_name st) = Some n"
    | "truthy vid = None" "truthy vname = None"
        "truthy (default_vector_store_id st) = None"
        "truthy (default_vector_store_name st) = None"
    by (metis option.exhaust)
  then show ?thesis
  proof cases
    case 1
    then show ?thesis by (simp add: ensure_by_id fetch_store_eq)
  next
    case 2
    show ?thesis
      by (rule find_or_create(2) [OF ensure_by_name [OF 2]]) simp_all
  next
    case 3
    then show ?thesis by (simp add: ensure_by_default_id fetch_store_eq)
  next
    case 4
    show ?thesis
      by (rule find_or_create(2) [OF ensure_by_default_name [OF 4]]) simp_all
  next
    case 5
    then show ?thesis by (simp add: ensure_unconfigured)
  qed
qed

section \<open>Store resolution: the order of the rules\<close>



section \<open>A failing listing\<close>

text \<open>
  When the list call itself raises, the lookup by name returns nothing and logs one
  warning after the call, and a resolution by name goes on to create the store.
\<close>

lemma list_call_failure_degrades:
  "list_stores cl = Inl e \<Longrightarrow>
     find_vector_store_by_name cl n s =
       (Inr None,
        emit (Log WARNING (str ''Failed to list vector stores: %s'') [S (str_error e)])
          (emit (Remote (VsList 100 (str ''desc''))) s))"
  "list_stores cl = Inl e \<Longrightarrow> truthy vid = None \<Longrightarrow> truthy vname = Some n \<Longrightarrow>
     fst (ensure_vector_store st cl vid vname md s) = create_store cl n md
     \<and> events (snd (ensure_vector_store st cl vid vname md s)) =
         events s @
           [Log DEBUG (str ''Attempting to locate vector store named %s'') [S n],
            Remote (VsList 100 (str ''desc'')),
            Log WARNING (str ''Failed to list vector stores: %s'') [S (str_error e)],
            Log INFO (str ''Creating vector store named %s'') [S n],
            Remote (VsCreate n md)]"
  "list_stores cl = Inl e \<Longrightarrow> truthy vid = None \<Longrightarrow> truthy vname = None \<Longrightarrow>
   truthy (default_vector_store_id st) = None \<Longrightarrow>
   truthy (default_vector_store_name st) = Some n \<Longrightarrow>
     fst (ensure_vector_store st cl vid vname md s) = create_store cl n md
     \<and> events (snd (ensure_vector_store st cl vid vname md s)) =
         events s @
           [Log DEBUG (str ''Attempting to locate default vector store named %s'') [S n],
            Remote (VsList 100 (str ''desc'')),
            Log WARNING (str ''Failed to list vector stores: %s'') [S (str_error e)],
            Log INFO (str ''Creating default vector store named %s'') [S n],
            Remote (VsCreate n md)]"
  by (simp_all add: ensure_by_name ensure_by_default_name find_vector_store_by_name_def
        make_store_def Let_def)

text \<open>
  An error raised by the iteration over the pages is not caught: it is the result of the
  lookup, nothing is logged after the call, and the resolution returns it.
\<close>

lemma iteration_error_is_result:
  "list_stores cl = Inr pages \<Longrightarrow> first_named n pages = Inl e \<Longrightarrow>
     find_vector_store_by_name cl n s = (Inl e, emit (Remote (VsList 100 (str ''desc''))) s)"
  "list_stores cl = Inr pages \<Longrightarrow> first_named n pages = Inl e \<Longrightarrow>
   truthy vid = None \<Longrightarrow> truthy vname = Some n \<Longrightarrow>
     fst (ensure_vector_store st cl vid vname md s) = Inl e
     \<and> events (snd (ensure_vector_store st cl vid vname md s)) =
         events s @
           [Log DEBUG (str ''Attempting to locate vector store named %s'') [S n],
            Remote (VsList 100 (str ''desc''))]"
  "list_stores cl = Inr pages \<Longrightarrow> first_named n pages = Inl e \<Longrightarrow>
   truthy vid = None \<Longrightarrow> truthy vname = None \<Longrightarrow>
   truthy (default_vector_store_id st) = None \<Longrightarrow>
   truthy (default_vector_store_name st) = Some n \<Longrightarrow>
     fst (ensure_vector_store st cl vid vname md s) = Inl e
     \<and> events (snd (ensure_vector_store st cl vid vname md s)) =
         events s @
           [Log DEBUG (str ''Attempting to locate default vector store named %s'') [S n],
            Remote (VsList 100 (str ''desc''))]"
  by (simp_all add: ensure_by_name ensure_by_default_name find_vector_store_by_name_def
        Let_def)

text \<open>
  Claim C8. The claim is that a listing that fails with any error is treated as "no
  match": nothing is propagated, a warning is logged and the store is created. The code
  guards the list call only. Here the list call succeeds, its first page holds one store
  of another name, and the request for the next page fails: the resolution of the name
  "docs" returns that error, the only remote call is the listing, no warning is logged
  and no store is created.
\<close>

theorem listing_page_failure_propagates:
  "list_stores failing_page_client
     = Inr (Yield other_store (Raise (APIError (str ''connection reset''))))
   \<and> ensure_vector_store no_defaults failing_page_client None (Some (str ''docs'')) (Some [])
       empty_state
     = (Inl (APIError (str ''connection reset'')),
        \<lparr>heap = [],
         events = [Log DEBUG (str ''Attempting to locate vector store named %s'') [S (str ''docs'')],
                   Remote (VsList 100 (str ''desc''))]\<rparr>)
   \<and> warnings (snd (ensure_vector_store no_defaults failing_page_client None
         (Some (str ''docs'')) (Some []) empty_state)) = []
   \<and> calls (snd (ensure_vector_store no_defaults failing_page_client None
         (Some (str ''docs'')) (Some []) empty_state)) = [VsList 100 (str ''desc'')]
   \<and> ensure_vector_store docs_default failing_page_client None None None empty_state
     = (Inl (APIError (str ''connection reset'')),
        \<lparr>heap = [],
         events = [Log DEBUG (str ''Attempting to locate default vector store named %s'')
                     [S (str ''docs'')],
                   Remote (VsList 100 (str ''desc''))]\<rparr>)"
  by (simp add: ensure_vector_store_def find_vector_store_by_name_def truthy_def
        failing_page_client_def mock_client_def other_store_def no_defaults_def
        docs_default_def empty_state_def emit_def calls_def warnings_def Let_def)


section \<open>Facts about dictionaries and the heap\<close>

lemma map_of_dict_setdefault:
  "map_of (dict_setdefault k v d) k' =
     (if k' = k then (case map_of d k of Some x \<Rightarrow> Some x | None \<Rightarrow> Some v)
      else map_of d k')"
proof (cases "k \<in> set (map fst d)")
  case True
  then obtain x where "map_of d k = Some x"
    by (metis domD dom_map_of_conv_image_fst list.set_map)
  with True show ?thesis by (simp add: dict_setdefault_def)
next
  case False
  then have "map_of d k = None" by (simp add: map_of_eq_None_iff)
  with False show ?thesis
    by (auto simp: dict_setdefault_def map_add_def split: option.splits)
qed

lemma keys_dict_setdefault:
  "fst ` set (dict_setdefault k v d) = insert k (fst ` set d)"
  by (auto simp: dict_setdefault_def)

lemma take_dict_setdefault:
  "n \<le> length d \<Longrightarrow> take n (dict_setdefault k v d) = take n d"
  by (simp add: dict_setdefault_def)

lemma length_dict_setdefault: "length d \<le> length (dict_setdefault k v d)"
  by (simp add: dict_setdefault_def)

lemma setdefault_last:
  "heap s = h @ [d] \<Longrightarrow>
     heap (setdefault (length h) k v s) = h @ [dict_setdefault k v d]
     \<and> events (setdefault (length h) k v s) = events s"
  by (simp add: setdefault_def deref_def)

section \<open>Facts about the composed attributes\<close>

lemma composed_attributes_ingested_at:
  "map_of (composed_attributes rt r d) (str ''ingested_at'') =
     (case map_of d (str ''ingested_at'') of
        Some x \<Rightarrow> Some x | None \<Rightarrow> Some (StrV (isoformat rt)))"
  by (simp add: composed_attributes_def Let_def map_of_dict_setdefault
        split: option.splits)

lemma composed_attributes_document_id:
  "map_of (composed_attributes rt r d) (str ''document_id'') =
     (case map_of d (str ''document_id'') of
        Some x \<Rightarrow> Some x | None \<Rightarrow> map_option StrV (truthy (document_id r)))"
  by (simp add: composed_attributes_def Let_def map_of_dict_setdefault
        split: option.splits)

lemma composed_attributes_summary:
  "map_of (composed_attributes rt r d) (str ''summary'') =
     (case map_of d (str ''summary'') of
        Some x \<Rightarrow> Some x | None \<Rightarrow> map_option StrV (truthy (summary r)))"
  by (simp add: composed_attributes_def Let_def map_of_dict_setdefault
        split: option.splits)

lemma composed_attributes_keys:
  "str ''ingested_at'' \<in> fst ` set (composed_attributes rt r d)"
  by (simp add: composed_attributes_def Let_def keys_dict_setdefault)

lemma composed_attributes_nonempty: "composed_attributes rt r d \<noteq> []"
  using composed_attributes_keys [of rt r d] by auto

lemma composed_attributes_take:
  "take (length d) (composed_attributes rt r d) = d"
proof -
  have *: "\<And>k v e. length d \<le> length e \<Longrightarrow> take (length d) e = d \<Longrightarrow>
             length d \<le> length (dict_setdefault k v e)
             \<and> take (length d) (dict_setdefault k v e) = d"
  proof -
    fix k v and e :: AttributesType
    assume a: "length d \<le> length e" "take (length d) e = d"
    have "length e \<le> length (dict_setdefault k v e)"
      by (rule length_dict_setdefault)
    with a show "length d \<le> length (dict_setdefault k v e)
        \<and> take (length d) (dict_setdefault k v e) = d"
      by (simp add: take_dict_setdefault)
  qed
  define d1 where "d1 = (case truthy (document_id r) of
      Some x \<Rightarrow> dict_setdefault (str ''document_id'') (StrV x) d | None \<Rightarrow> d)"
  define d2 where "d2 = (case truthy (summary r) of
      Some sm \<Rightarrow> dict_setdefault (str ''summary'') (StrV sm) d1 | None \<Rightarrow> d1)"
  have 1: "length d \<le> length d1 \<and> take (length d) d1 = d"
    unfolding d1_def using * [of d] by (cases "truthy (document_id r)") simp_all
  have 2: "length d \<le> length d2 \<and> take (length d) d2 = d"
    unfolding d2_def using 1 * [of d1] by (cases "truthy (summary r)") simp_all
  have "composed_attributes rt r d = dict_setdefault (str ''ingested_at'') (StrV (isoformat rt)) d2"
    unfolding composed_attributes_def d2_def d1_def Let_def by (rule refl)
  with 2 * [of d2] show ?thesis by simp
qed

section \<open>Facts about the ingestion\<close>

lemma ingest_failed:
  "ensure_vector_store st cl (vector_store_id r) (vector_store_name r)
     (case truthy (vector_store_name r) of Some x \<Rightarrow> Some [] | None \<Rightarrow> None) s = (Inl e, s1)
   \<Longrightarrow> ingest st cl rt r s = (Inl e, s1)"
  by (simp add: ingest_def)

text \<open>
  When the resolution gives a store, the ingestion issues exactly one more call, the
  upload, with the composed attributes, and leaves one new dictionary on the heap.
\<close>

lemma ingest_success:
  assumes E: "ensure_vector_store st cl (vector_store_id r) (vector_store_name r)
     (case truthy (vector_store_name r) of Some x \<Rightarrow> Some [] | None \<Rightarrow> None) s = (Inr vs, s1)"
  shows "calls (snd (ingest st cl rt r s)) =
           calls s1 @
             [UploadAndPoll (vs_id vs)
                (prepare_upload
                   (case truthy (filename r) of Some f \<Rightarrow> f | None \<Rightarrow> derive_filename rt r)
                   (content r) (mime_type r))
                (Some (composed_attributes rt r (attributes_or_empty r s)))
                (chunking_strategy r)]"
    and "heap (snd (ingest st cl rt r s)) =
           heap s @ [composed_attributes rt r (attributes_or_empty r s)]"
    and "\<And>resp. fst (ingest st cl rt r s) = Inr resp \<Longrightarrow>
           ir_filename resp =
             (case truthy (filename r) of Some f \<Rightarrow> f | None \<Rightarrow> derive_filename rt r)"
    and "fst (ingest st cl rt r s) =
           (case upload_and_poll cl (vs_id vs)
                   (prepare_upload
                      (case truthy (filename r) of
                         Some f \<Rightarrow> f | None \<Rightarrow> derive_filename rt r)
                      (content r) (mime_type r))
                   (Some (composed_attributes rt r (attributes_or_empty r s)))
                   (chunking_strategy r) of
              Inl e \<Rightarrow> Inl e
            | Inr vector_store_file \<Rightarrow>
                Inr \<lparr>ir_vector_store_id = vs_id vs,
                     ir_vector_store_name = vs_name vs,
                     ir_file_id = vsf_id vector_store_file,
                     ir_filename =
                       (case truthy (filename r) of
                          Some f \<Rightarrow> f | None \<Rightarrow> derive_filename rt r),
                     ir_status = vsf_status vector_store_file,
                     ir_attributes = vsf_attributes vector_store_file\<rparr>)"
proof -
  have h1: "heap s1 = heap s"
    using heap_ensure_vector_store [of st cl "vector_store_id r" "vector_store_name r"
        "case truthy (vector_store_name r) of Some x \<Rightarrow> Some [] | None \<Rightarrow> None" s]
    by (simp add: E)
  then have a0: "attributes_or_empty r s1 = attributes_or_empty r s"
    by (simp add: attributes_or_empty_def deref_def split: option.splits)
  define d0 where "d0 = attributes_or_empty r s"
  define s2 where "s2 = snd (alloc d0 s1)"
  define s3 where "s3 = (case truthy (document_id r) of
      Some d \<Rightarrow> setdefault (length (heap s)) (str ''document_id'') (StrV d) s2 | None \<Rightarrow> s2)"
  define s4 where "s4 = (case truthy (summary r) of
      Some sm \<Rightarrow> setdefault (length (heap s)) (str ''summary'') (StrV sm) s3 | None \<Rightarrow> s3)"
  define s5 where "s5 = setdefault (length (heap s)) (str ''ingested_at'') (StrV (isoformat rt)) s4"
  define d1 where "d1 = (case truthy (document_id r) of
      Some x \<Rightarrow> dict_setdefault (str ''document_id'') (StrV x) d0 | None \<Rightarrow> d0)"
  define d2 where "d2 = (case truthy (summary r) of
      Some sm \<Rightarrow> dict_setdefault (str ''summary'') (StrV sm) d1 | None \<Rightarrow> d1)"
  define d3 where "d3 = dict_setdefault (str ''ingested_at'') (StrV (isoformat rt)) d2"
  have c: "composed_attributes rt r d0 = d3"
    unfolding composed_attributes_def d3_def d2_def d1_def Let_def by (rule refl)
  have al: "alloc d0 s1 = (length (heap s), s2)"
    by (simp add: s2_def alloc_def h1)
  have p2: "heap s2 = heap s @ [d0] \<and> events s2 = events s1"
    by (simp add: s2_def alloc_def h1)
  have p3: "heap s3 = heap s @ [d1] \<and> events s3 = events s1"
    unfolding s3_def d1_def using p2 setdefault_last [of s2 "heap s" d0]
    by (cases "truthy (document_id r)") simp_all
  have p4: "heap s4 = heap s @ [d2] \<and> events s4 = events s1"
    unfolding s4_def d2_def using p3 setdefault_last [of s3 "heap s" d1]
    by (cases "truthy (summary r)") simp_all
  have p5: "heap s5 = heap s @ [d3] \<and> events s5 = events s1"
    unfolding s5_def d3_def using p4 setdefault_last [of s4 "heap s" d2] by simp
  have ne: "d3 \<noteq> []"
    using composed_attributes_nonempty [of rt r d0] c by simp
  have dr: "\<And>e. deref (emit e s5) (length (heap s)) = d3"
    using p5 by (simp add: deref_def)
  have cs: "calls s5 = calls s1"
    using p5 by (simp add: calls_def)
  have unfolded: "ingest st cl rt r s =
     (let fname = (case truthy (filename r) of Some f \<Rightarrow> f | None \<Rightarrow> derive_filename rt r);
          upload = prepare_upload fname (content r) (mime_type r);
          s6 = emit (Log INFO (str ''Uploading document %s to vector store %s'')
                       [S fname, S (vs_id vs)]) s5;
          s7 = emit (Remote (UploadAndPoll (vs_id vs) upload (Some d3) (chunking_strategy r))) s6
      in case upload_and_poll cl (vs_id vs) upload (Some d3) (chunking_strategy r) of
           Inl e \<Rightarrow> (Inl e, s7)
         | Inr vector_store_file \<Rightarrow>
             (Inr \<lparr>ir_vector_store_id = vs_id vs,
                   ir_vector_store_name = vs_name vs,
                   ir_file_id = vsf_id vector_store_file,
                   ir_filename = fname,
                   ir_status = vsf_status vector_store_file,
                   ir_attributes = vsf_attributes vector_store_file\<rparr>,
              if vsf_status vector_store_file \<noteq> str ''completed''
              then emit (Log WARNING (str ''Vector store file %s completed with status %s'')
                           [S (vsf_id vector_store_file), S (vsf_status vector_store_file)]) s7
              else s7))"
  proof -
    have "ingest st cl rt r s =
       (let fname = (case truthy (filename r) of Some f \<Rightarrow> f | None \<Rightarrow> derive_filename rt r);
            upload = prepare_upload fname (content r) (mime_type r);
            s6 = emit (Log INFO (str ''Uploading document %s to vector store %s'')
                         [S fname, S (vs_id vs)]) s5;
            a = or_None (deref s6 (length (heap s)));
            s7 = emit (Remote (UploadAndPoll (vs_id vs) upload a (chunking_strategy r))) s6
        in case upload_and_poll cl (vs_id vs) upload a (chunking_strategy r) of
             Inl e \<Rightarrow> (Inl e, s7)
           | Inr vector_store_file \<Rightarrow>
               (Inr \<lparr>ir_vector_store_id = vs_id vs,
                     ir_vector_store_name = vs_name vs,
                     ir_file_id = vsf_id vector_store_file,
                     ir_filename = fname,
                     ir_status = vsf_status vector_store_file,
                     ir_attributes = vsf_attributes vector_store_file\<rparr>,
                if vsf_status vector_store_file \<noteq> str ''completed''
                then emit (Log WARNING (str ''Vector store file %s completed with status %s'')
                             [S (vsf_id vector_store_file), S (vsf_status vector_store_file)]) s7
                else s7))"
      unfolding s5_def s4_def s3_def s2_def d0_def
      by (simp add: ingest_def E a0 alloc_def h1 Let_def cong: option.case_cong sum.case_cong if_cong)
    then show ?thesis
      using ne by (simp add: dr or_None_def Let_def cong: sum.case_cong if_cong)
  qed
  show "calls (snd (ingest st cl rt r s)) =
           calls s1 @
             [UploadAndPoll (vs_id vs)
                (prepare_upload
                   (case truthy (filename r) of Some f \<Rightarrow> f | None \<Rightarrow> derive_filename rt r)
                   (content r) (mime_type r))
                (Some (composed_attributes rt r (attributes_or_empty r s)))
                (chunking_strategy r)]"
    by (simp add: unfolded Let_def cs c d0_def [symmetric] split: sum.splits)
  show "heap (snd (ingest st cl rt r s)) =
           heap s @ [composed_attributes rt r (attributes_or_empty r s)]"
    by (simp add: unfolded Let_def p5 c d0_def [symmetric] split: sum.splits)
  show "\<And>resp. fst (ingest st cl rt r s) = Inr resp \<Longrightarrow>
           ir_filename resp =
             (case truthy (filename r) of Some f \<Rightarrow> f | None \<Rightarrow> derive_filename rt r)"
    by (auto simp: unfolded Let_def split: sum.splits)
  show "fst (ingest st cl rt r s) =
           (case upload_and_poll cl (vs_id vs)
                   (prepare_upload
                      (case truthy (filename r) of
                         Some f \<Rightarrow> f | None \<Rightarrow> derive_filename rt r)
                      (content r) (mime_type r))
                   (Some (composed_attributes rt r (attributes_or_empty r s)))
                   (chunking_strategy r) of
              Inl e \<Rightarrow> Inl e
            | Inr vector_store_file \<Rightarrow>
                Inr \<lparr>ir_vector_store_id = vs_id vs,
                     ir_vector_store_name = vs_name vs,
                     ir_file_id = vsf_id vector_store_file,
                     ir_filename =
                       (case truthy (filename r) of
                          Some f \<Rightarrow> f | None \<Rightarrow> derive_filename rt r),
                     ir_status = vsf_status vector_store_file,
                     ir_attributes = vsf_attributes vector_store_file\<rparr>)"
    by (simp add: unfolded Let_def c d0_def [symmetric] split: sum.splits)
qed


section \<open>The calls of a resolution and of an ingestion\<close>

lemma ensure_calls_extend:
  "\<exists>cs. calls (snd (ensure_vector_store st cl vid vname md s)) = calls s @ cs
     \<and> ((\<exists>i. cs = [VsRetrieve i]) \<or> cs = [VsList 100 (str ''desc'')]
          \<or> (\<exists>n. cs = [VsList 100 (str ''desc''), VsCreate n md]) \<or> cs = [])"
proof -
  consider i where "truthy vid = Some i"
    | n where "truthy vid = None" "truthy vname = Some n"
    | i where "truthy vid = None" "truthy vname = None"
        "truthy (default_vector_store_id st) = Some i"
    | n where "truthy vid = None" "truthy vname = None"
        "truthy (default_vector_store_id st) = None"
        "truthy (default_vector_store_name st) = Some n"
    | "truthy vid = None" "truthy vname = None"
        "truthy (default_vector_store_id st) = None"
        "truthy (default_vector_store_name st) = None"
    by (metis option.exhaust)
  then show ?thesis
  proof cases
    case 1
    then show ?thesis by (simp add: ensure_by_id fetch_store_eq)
  next
    case 2
    from find_or_create(1)
      [OF ensure_by_name [OF 2, where st = st and cl = cl and md = md and s = s],
        where s = s, simplified]
    show ?thesis by (auto split: option.splits sum.splits)
  next
    case 3
    then show ?thesis by (simp add: ensure_by_default_id fetch_store_eq)
  next
    case 4
    from find_or_create(1)
      [OF ensure_by_default_name [OF 4, where cl = cl and md = md and s = s],
        where s = s, simplified]
    show ?thesis by (auto split: option.splits sum.splits)
  next
    case 5
    then show ?thesis by (simp add: ensure_unconfigured)
  qed
qed

lemma ensure_no_upload:
  "UploadAndPoll v f a c \<notin> set (new_calls s (snd (ensure_vector_store st cl vid vname md s)))"
  using ensure_calls_extend [of st cl vid vname md s] by (auto simp: new_calls_def)

text \<open>Every upload that an ingestion issues carries the composed attributes.\<close>

lemma ingest_upload:
  assumes "UploadAndPoll v f a c \<in> set (new_calls s (snd (ingest st cl rt r s)))"
  shows "a = Some (composed_attributes rt r (attributes_or_empty r s))"
proof -
  let ?md = "case truthy (vector_store_name r) of Some x \<Rightarrow> Some [] | None \<Rightarrow> None"
  obtain res s1 where E:
    "ensure_vector_store st cl (vector_store_id r) (vector_store_name r) ?md s = (res, s1)"
    by (cases "ensure_vector_store st cl (vector_store_id r) (vector_store_name r) ?md s")
  obtain cs where cs: "calls s1 = calls s @ cs"
    using ensure_calls_extend [of st cl "vector_store_id r" "vector_store_name r" ?md s]
    by (auto simp: E)
  have no: "UploadAndPoll v f a c \<notin> set cs"
    using ensure_no_upload [of v f a c s st cl "vector_store_id r" "vector_store_name r" ?md]
    by (simp add: E cs new_calls_def)
  show ?thesis
  proof (cases res)
    case (Inl e)
    then have "ingest st cl rt r s = (Inl e, s1)"
      using E by (simp add: ingest_failed)
    with assms no cs show ?thesis by (simp add: new_calls_def)
  next
    case (Inr vs)
    from ingest_success(1) [OF E [unfolded Inr], of rt] assms no cs
    show ?thesis by (simp add: new_calls_def)
  qed
qed

text \<open>When the resolution gives a store, the upload is the one call that follows it.\<close>

lemma ingest_issues_upload:
  assumes "fst (ensure_vector_store st cl (vector_store_id r) (vector_store_name r)
     (case truthy (vector_store_name r) of Some x \<Rightarrow> Some [] | None \<Rightarrow> None) s) = Inr vs"
  shows "new_calls s (snd (ingest st cl rt r s)) =
     new_calls s (snd (ensure_vector_store st cl (vector_store_id r) (vector_store_name r)
        (case truthy (vector_store_name r) of Some x \<Rightarrow> Some [] | None \<Rightarrow> None) s))
     @ [UploadAndPoll (vs_id vs)
          (prepare_upload
             (case truthy (filename r) of Some f \<Rightarrow> f | None \<Rightarrow> derive_filename rt r)
             (content r) (mime_type r))
          (Some (composed_attributes rt r (attributes_or_empty r s)))
          (chunking_strategy r)]"
proof -
  let ?md = "case truthy (vector_store_name r) of Some x \<Rightarrow> Some [] | None \<Rightarrow> None"
  obtain s1 where E:
    "ensure_vector_store st cl (vector_store_id r) (vector_store_name r) ?md s = (Inr vs, s1)"
    using assms
    by (cases "ensure_vector_store st cl (vector_store_id r) (vector_store_name r) ?md s") simp
  obtain cs where cs: "calls s1 = calls s @ cs"
    using ensure_calls_extend [of st cl "vector_store_id r" "vector_store_name r" ?md s]
    by (auto simp: E)
  from ingest_success(1) [OF E, of rt] cs show ?thesis
    by (simp add: E new_calls_def)
qed

text \<open>The heap after an ingestion: the old heap, then at most the one new dictionary.\<close>

lemma ingest_heap:
  "take (length (heap s)) (heap (snd (ingest st cl rt r s))) = heap s"
proof -
  let ?md = "case truthy (vector_store_name r) of Some x \<Rightarrow> Some [] | None \<Rightarrow> None"
  obtain res s1 where E:
    "ensure_vector_store st cl (vector_store_id r) (vector_store_name r) ?md s = (res, s1)"
    by (cases "ensure_vector_store st cl (vector_store_id r) (vector_store_name r) ?md s")
  have h1: "heap s1 = heap s"
    using heap_ensure_vector_store [of st cl "vector_store_id r" "vector_store_name r" ?md s]
    by (simp add: E)
  show ?thesis
  proof (cases res)
    case (Inl e)
    then show ?thesis using E h1 by (simp add: ingest_failed)
  next
    case (Inr vs)
    from ingest_success(2) [OF E [unfolded Inr], of rt] show ?thesis by simp
  qed
qed

section \<open>Two runs of the ingestion\<close>

lemmas example_defs = docs_default_def no_defaults_def id_default_def mock_client_def
  failing_list_client_def docs_store_def utc_now_def empty_state_def caller_state_def
  hello_request_def caller_request_def auth_request_def

text \<open>
  The request \<open>hello_request\<close> with the default name \<open>docs\<close> configured and no store on
  the remote side: one listing, one creation, one upload.
\<close>

lemma hello_resolution:
  "ensure_vector_store docs_default (mock_client []) (vector_store_id hello_request)
     (vector_store_name hello_request)
     (case truthy (vector_store_name hello_request) of Some x \<Rightarrow> Some [] | None \<Rightarrow> None)
     empty_state =
   (Inr \<lparr>vs_id = str ''vs_new'', vs_name = Some (str ''docs'')\<rparr>,
    \<lparr>heap = [],
     events = [Log DEBUG (str ''Attempting to locate default vector store named %s'') [S (str ''docs'')],
               Remote (VsList 100 (str ''desc'')),
               Log INFO (str ''Creating default vector store named %s'') [S (str ''docs'')],
               Remote (VsCreate (str ''docs'') None)]\<rparr>)"
  by (simp add: example_defs ensure_vector_store_def truthy_def find_vector_store_by_name_def
        make_store_def emit_def Let_def)

lemma hello_composed:
  "composed_attributes utc_now hello_request (attributes_or_empty hello_request empty_state) =
     [(str ''document_id'', StrV (str ''doc1'')),
      (str ''ingested_at'', StrV (str ''2023-11-14T22:13:20+00:00''))]"
  by (simp add: example_defs composed_attributes_def attributes_or_empty_def
        dict_setdefault_def truthy_def Let_def)

lemma hello_filename:
  "(case truthy (filename hello_request) of
      Some f \<Rightarrow> f | None \<Rightarrow> derive_filename utc_now hello_request) = str ''doc1.txt''"
  by (simp add: example_defs derive_filename_def truthy_def)

lemma hello_calls:
  "new_calls empty_state
     (snd (ingest docs_default (mock_client []) utc_now hello_request empty_state)) =
   [VsList 100 (str ''desc''), VsCreate (str ''docs'') None,
    UploadAndPoll (str ''vs_new'') (prepare_upload (str ''doc1.txt'') (str ''Hello world'') (str ''text/plain''))
      (Some [(str ''document_id'', StrV (str ''doc1'')),
             (str ''ingested_at'', StrV (str ''2023-11-14T22:13:20+00:00''))])
      None]"
proof -
  have "calls (snd (ingest docs_default (mock_client []) utc_now hello_request empty_state)) =
    calls empty_state @ [VsList 100 (str ''desc''), VsCreate (str ''docs'') None,
      UploadAndPoll (str ''vs_new'') (prepare_upload (str ''doc1.txt'') (str ''Hello world'') (str ''text/plain''))
        (Some [(str ''document_id'', StrV (str ''doc1'')),
               (str ''ingested_at'', StrV (str ''2023-11-14T22:13:20+00:00''))])
        None]"
    unfolding ingest_success(1) [OF hello_resolution] hello_composed hello_filename
    by (simp add: calls_def empty_state_def hello_request_def)
  then show ?thesis by (rule new_calls_append)
qed

text \<open>
  The request \<open>caller_request\<close>, whose dictionary already holds \<open>ingested_at\<close> and
  \<open>document_id\<close>, with the store \<open>docs\<close> on the remote side: one listing, one upload.
\<close>

lemma caller_resolution:
  "ensure_vector_store docs_default (mock_client [docs_store]) (vector_store_id caller_request)
     (vector_store_name caller_request)
     (case truthy (vector_store_name caller_request) of Some x \<Rightarrow> Some [] | None \<Rightarrow> None)
     caller_state =
   (Inr docs_store,
    \<lparr>heap = [[(str ''ingested_at'', StrV (str ''1999-01-01T00:00:00+00:00'')),
               (str ''document_id'', StrV (str ''mine''))]],
     events = [Log DEBUG (str ''Attempting to locate default vector store named %s'') [S (str ''docs'')],
               Remote (VsList 100 (str ''desc''))]\<rparr>)"
  by (simp add: example_defs ensure_vector_store_def truthy_def find_vector_store_by_name_def
        make_store_def emit_def Let_def)

lemma caller_attributes:
  "attributes_or_empty caller_request caller_state =
     [(str ''ingested_at'', StrV (str ''1999-01-01T00:00:00+00:00'')), (str ''document_id'', StrV (str ''mine''))]"
  by (simp add: example_defs attributes_or_empty_def deref_def)

lemma caller_composed:
  "composed_attributes utc_now caller_request (attributes_or_empty caller_request caller_state) =
     [(str ''ingested_at'', StrV (str ''1999-01-01T00:00:00+00:00'')), (str ''document_id'', StrV (str ''mine''))]"
  unfolding caller_attributes
  by (simp add: example_defs composed_attributes_def dict_setdefault_def truthy_def Let_def)

lemma caller_filename:
  "(case truthy (filename caller_request) of
      Some f \<Rightarrow> f | None \<Rightarrow> derive_filename utc_now caller_request) = str ''doc1.txt''"
  by (simp add: example_defs derive_filename_def truthy_def)

lemma caller_calls:
  "new_calls caller_state
     (snd (ingest docs_default (mock_client [docs_store]) utc_now caller_request caller_state)) =
   [VsList 100 (str ''desc''),
    UploadAndPoll (str ''vs_1'') (prepare_upload (str ''doc1.txt'') (str ''Hello world'') (str ''text/plain''))
      (Some [(str ''ingested_at'', StrV (str ''1999-01-01T00:00:00+00:00'')),
             (str ''document_id'', StrV (str ''mine''))])
      None]"
proof -
  have "calls (snd (ingest docs_default (mock_client [docs_store]) utc_now caller_request
                 caller_state)) =
    calls caller_state @ [VsList 100 (str ''desc''),
      UploadAndPoll (str ''vs_1'') (prepare_upload (str ''doc1.txt'') (str ''Hello world'') (str ''text/plain''))
        (Some [(str ''ingested_at'', StrV (str ''1999-01-01T00:00:00+00:00'')),
               (str ''document_id'', StrV (str ''mine''))])
        None]"
    unfolding ingest_success(1) [OF caller_resolution] caller_composed caller_filename
    by (simp add: calls_def caller_state_def caller_request_def hello_request_def
          docs_store_def)
  then show ?thesis by (rule new_calls_append)
qed


section \<open>The composed attributes of an ingestion\<close>

text \<open>
  Claim C9. For every ingestion request, every upload that the ingestion issues carries
  an attribute dictionary, never \<open>None\<close>: the dictionary holds the key \<open>ingested_at\<close> and
  so is not empty, and \<open>attributes or None\<close> never takes its \<open>None\<close> branch. Whenever the
  resolution gives a store, the upload is issued: it is the last call of the ingestion,
  on that store.
\<close>

theorem upload_attributes_never_empty:
  "(UploadAndPoll v f a c \<in> set (new_calls s (snd (ingest st cl rt r s))) \<longrightarrow>
      (\<exists>d. a = Some d \<and> d \<noteq> [] \<and> str ''ingested_at'' \<in> fst ` set d))
   \<and> (fst (ensure_vector_store st cl (vector_store_id r) (vector_store_name r)
            (case truthy (vector_store_name r) of Some x \<Rightarrow> Some [] | None \<Rightarrow> None) s)
          = Inr vs \<longrightarrow>
        (\<exists>f d. d \<noteq> [] \<and> str ''ingested_at'' \<in> fst ` set d
           \<and> last (new_calls s (snd (ingest st cl rt r s))) =
               UploadAndPoll (vs_id vs) f (Some d) (chunking_strategy r)))
   \<and> or_None (composed_attributes rt r d0) = Some (composed_attributes rt r d0)"
proof (intro conjI impI)
  assume "UploadAndPoll v f a c \<in> set (new_calls s (snd (ingest st cl rt r s)))"
  then have "a = Some (composed_attributes rt r (attributes_or_empty r s))"
    by (rule ingest_upload)
  then show "\<exists>d. a = Some d \<and> d \<noteq> [] \<and> str ''ingested_at'' \<in> fst ` set d"
    by (simp add: composed_attributes_nonempty composed_attributes_keys)
next
  assume "fst (ensure_vector_store st cl (vector_store_id r) (vector_store_name r)
            (case truthy (vector_store_name r) of Some x \<Rightarrow> Some [] | None \<Rightarrow> None) s)
          = Inr vs"
  from ingest_issues_upload [OF this, of rt]
  have L: "last (new_calls s (snd (ingest st cl rt r s))) =
      UploadAndPoll (vs_id vs)
        (prepare_upload
           (case truthy (filename r) of Some f \<Rightarrow> f | None \<Rightarrow> derive_filename rt r)
           (content r) (mime_type r))
        (Some (composed_attributes rt r (attributes_or_empty r s)))
        (chunking_strategy r)"
    by simp
  show "\<exists>f d. d \<noteq> [] \<and> str ''ingested_at'' \<in> fst ` set d
           \<and> last (new_calls s (snd (ingest st cl rt r s))) =
               UploadAndPoll (vs_id vs) f (Some d) (chunking_strategy r)"
    by (rule exI [where x = "prepare_upload
           (case truthy (filename r) of Some f \<Rightarrow> f | None \<Rightarrow> derive_filename rt r)
           (content r) (mime_type r)"],
        rule exI [where x = "composed_attributes rt r (attributes_or_empty r s)"])
       (simp add: L composed_attributes_nonempty composed_attributes_keys)
next
  show "or_None (composed_attributes rt r d0) = Some (composed_attributes rt r d0)"
    by (simp add: or_None_def composed_attributes_nonempty)
qed

theorem upload_attributes_never_empty_witness:
  "UploadAndPoll (str ''vs_new'') (prepare_upload (str ''doc1.txt'') (str ''Hello world'') (str ''text/plain''))
      (Some [(str ''document_id'', StrV (str ''doc1'')),
             (str ''ingested_at'', StrV (str ''2023-11-14T22:13:20+00:00''))]) None
     \<in> set (new_calls empty_state
              (snd (ingest docs_default (mock_client []) utc_now hello_request empty_state)))
   \<and> (\<exists>d. Some [(str ''document_id'', StrV (str ''doc1'')),
                 (str ''ingested_at'', StrV (str ''2023-11-14T22:13:20+00:00''))] = Some d
          \<and> d \<noteq> [] \<and> str ''ingested_at'' \<in> fst ` set d)
   \<and> fst (ensure_vector_store docs_default (mock_client []) (vector_store_id hello_request)
          (vector_store_name hello_request)
          (case truthy (vector_store_name hello_request) of
             Some x \<Rightarrow> Some [] | None \<Rightarrow> None) empty_state)
       = Inr \<lparr>vs_id = str ''vs_new'', vs_name = Some (str ''docs'')\<rparr>
   \<and> (\<exists>f d. d \<noteq> [] \<and> str ''ingested_at'' \<in> fst ` set d
         \<and> last (new_calls empty_state
                 (snd (ingest docs_default (mock_client []) utc_now hello_request empty_state)))
             = UploadAndPoll (str ''vs_new'') f (Some d) (chunking_strategy hello_request))"
proof -
  have m: "UploadAndPoll (str ''vs_new'') (prepare_upload (str ''doc1.txt'') (str ''Hello world'') (str ''text/plain''))
      (Some [(str ''document_id'', StrV (str ''doc1'')),
             (str ''ingested_at'', StrV (str ''2023-11-14T22:13:20+00:00''))]) None
     \<in> set (new_calls empty_state
              (snd (ingest docs_default (mock_client []) utc_now hello_request empty_state)))"
    by (simp add: hello_calls)
  have e: "fst (ensure_vector_store docs_default (mock_client []) (vector_store_id hello_request)
          (vector_store_name hello_request)
          (case truthy (vector_store_name hello_request) of
             Some x \<Rightarrow> Some [] | None \<Rightarrow> None) empty_state)
       = Inr \<lparr>vs_id = str ''vs_new'', vs_name = Some (str ''docs'')\<rparr>"
    by (simp add: hello_resolution)
  from m e
    upload_attributes_never_empty [where s = empty_state and st = docs_default
      and cl = "mock_client []" and rt = utc_now and r = hello_request
      and v = "str ''vs_new''"
      and f = "prepare_upload (str ''doc1.txt'') (str ''Hello world'') (str ''text/plain'')"
      and a = "Some [(str ''document_id'', StrV (str ''doc1'')),
                     (str ''ingested_at'', StrV (str ''2023-11-14T22:13:20+00:00''))]"
      and c = None and vs = "\<lparr>vs_id = str ''vs_new'', vs_name = Some (str ''docs'')\<rparr>"
      and ?d0.0 = "[]"]
  show ?thesis by simp
qed

text \<open>
  Claim C1, as the specification states it, at a concrete input. The caller's dictionary
  holds \<open>ingested_at\<close> with a value of 1999; the upload carries that value, not the
  timestamp of the clock.
\<close>

theorem ingested_at_overwrite_counterexample:
  "map_of (attributes_or_empty caller_request caller_state) (str ''ingested_at'')
     = Some (StrV (str ''1999-01-01T00:00:00+00:00''))
   \<and> new_calls caller_state
       (snd (ingest docs_default (mock_client [docs_store]) utc_now caller_request caller_state))
     = [VsList 100 (str ''desc''),
        UploadAndPoll (str ''vs_1'') (prepare_upload (str ''doc1.txt'') (str ''Hello world'') (str ''text/plain''))
          (Some [(str ''ingested_at'', StrV (str ''1999-01-01T00:00:00+00:00'')),
                 (str ''document_id'', StrV (str ''mine''))])
          None]
   \<and> map_of [(str ''ingested_at'', StrV (str ''1999-01-01T00:00:00+00:00'')),
              (str ''document_id'', StrV (str ''mine''))] (str ''ingested_at'')
     \<noteq> Some (StrV (isoformat utc_now))"
proof -
  have "isoformat utc_now = str ''2023-11-14T22:13:20+00:00''"
    by (simp add: utc_now_def)
  then show ?thesis
    by (simp add: caller_calls caller_attributes)
qed

text \<open>
  Claim C1, amended. For every ingestion request, every upload that the ingestion issues
  carries a dictionary with the key \<open>ingested_at\<close>: when the caller's attributes already
  hold that key, its value is the caller's; only otherwise it is the current timestamp
  in ISO-8601 (\<open>setdefault\<close>, as for the other two keys).
\<close>

theorem ingested_at_set_when_absent:
  "UploadAndPoll v f a c \<in> set (new_calls s (snd (ingest st cl rt r s))) \<Longrightarrow>
     \<exists>d. a = Some d
       \<and> map_of d (str ''ingested_at'') =
           (case map_of (attributes_or_empty r s) (str ''ingested_at'') of
              Some x \<Rightarrow> Some x
            | None \<Rightarrow> Some (StrV (isoformat rt)))"
  using ingest_upload [of v f a c s st cl rt r]
  by (simp add: composed_attributes_ingested_at)

theorem ingested_at_set_when_absent_witness:
  "UploadAndPoll (str ''vs_new'') (prepare_upload (str ''doc1.txt'') (str ''Hello world'') (str ''text/plain''))
      (Some [(str ''document_id'', StrV (str ''doc1'')),
             (str ''ingested_at'', StrV (str ''2023-11-14T22:13:20+00:00''))]) None
     \<in> set (new_calls empty_state
              (snd (ingest docs_default (mock_client []) utc_now hello_request empty_state)))
   \<and> map_of (attributes_or_empty hello_request empty_state) (str ''ingested_at'') = None
   \<and> map_of [(str ''document_id'', StrV (str ''doc1'')),
              (str ''ingested_at'', StrV (str ''2023-11-14T22:13:20+00:00''))] (str ''ingested_at'')
       = Some (StrV (isoformat utc_now))
   \<and> UploadAndPoll (str ''vs_1'') (prepare_upload (str ''doc1.txt'') (str ''Hello world'') (str ''text/plain''))
      (Some [(str ''ingested_at'', StrV (str ''1999-01-01T00:00:00+00:00'')),
             (str ''document_id'', StrV (str ''mine''))]) None
     \<in> set (new_calls caller_state
              (snd (ingest docs_default (mock_client [docs_store]) utc_now caller_request
                      caller_state)))
   \<and> map_of [(str ''ingested_at'', StrV (str ''1999-01-01T00:00:00+00:00'')),
              (str ''document_id'', StrV (str ''mine''))] (str ''ingested_at'')
       = map_of (attributes_or_empty caller_request caller_state) (str ''ingested_at'')"
proof -
  have m1: "UploadAndPoll (str ''vs_new'') (prepare_upload (str ''doc1.txt'') (str ''Hello world'') (str ''text/plain''))
      (Some [(str ''document_id'', StrV (str ''doc1'')),
             (str ''ingested_at'', StrV (str ''2023-11-14T22:13:20+00:00''))]) None
     \<in> set (new_calls empty_state
              (snd (ingest docs_default (mock_client []) utc_now hello_request empty_state)))"
    by (simp add: hello_calls)
  have m2: "UploadAndPoll (str ''vs_1'') (prepare_upload (str ''doc1.txt'') (str ''Hello world'') (str ''text/plain''))
      (Some [(str ''ingested_at'', StrV (str ''1999-01-01T00:00:00+00:00'')),
             (str ''document_id'', StrV (str ''mine''))]) None
     \<in> set (new_calls caller_state
              (snd (ingest docs_default (mock_client [docs_store]) utc_now caller_request
                      caller_state)))"
    by (simp add: caller_calls)
  have a1: "attributes_or_empty hello_request empty_state = []"
    by (simp add: attributes_or_empty_def hello_request_def)
  have i: "isoformat utc_now = str ''2023-11-14T22:13:20+00:00''"
    by (simp add: utc_now_def)
  from ingested_at_set_when_absent [OF m1] ingested_at_set_when_absent [OF m2] m1 m2
  show ?thesis
    by (simp add: a1 caller_attributes i)
qed

text \<open>
  Claim C6. For every ingestion request: the heap that the caller sees is the same
  after the ingestion as before, so the caller's dictionary is unchanged (the composed
  attributes live in a new dictionary); and every upload carries a dictionary that
  starts with the caller's entries, in which \<open>document_id\<close> and \<open>summary\<close> have the
  caller's values when the caller's dictionary holds these keys, and the derived values
  (those of the request fields, when they are present) only when it does not.
\<close>

theorem caller_attributes_copied_not_overwritten:
  "take (length (heap s)) (heap (snd (ingest st cl rt r s))) = heap s
   \<and> (attributes r = Some p \<and> p < length (heap s) \<longrightarrow>
        attributes_or_empty r (snd (ingest st cl rt r s)) = attributes_or_empty r s)
   \<and> (UploadAndPoll v f a c \<in> set (new_calls s (snd (ingest st cl rt r s))) \<longrightarrow>
        (\<exists>d. a = Some d
           \<and> take (length (attributes_or_empty r s)) d = attributes_or_empty r s
           \<and> map_of d (str ''document_id'') =
               (case map_of (attributes_or_empty r s) (str ''document_id'') of
                  Some x \<Rightarrow> Some x
                | None \<Rightarrow> map_option StrV (truthy (document_id r)))
           \<and> map_of d (str ''summary'') =
               (case map_of (attributes_or_empty r s) (str ''summary'') of
                  Some x \<Rightarrow> Some x
                | None \<Rightarrow> map_option StrV (truthy (summary r)))))"
proof (intro conjI impI)
  show t: "take (length (heap s)) (heap (snd (ingest st cl rt r s))) = heap s"
    by (rule ingest_heap)
  {
    assume p: "attributes r = Some p \<and> p < length (heap s)"
    have "heap (snd (ingest st cl rt r s)) ! p
            = take (length (heap s)) (heap (snd (ingest st cl rt r s))) ! p"
      using p by simp
    moreover have "length (heap s) \<le> length (heap (snd (ingest st cl rt r s)))"
      using arg_cong [OF t, of length] by simp
    ultimately show
      "attributes_or_empty r (snd (ingest st cl rt r s)) = attributes_or_empty r s"
      using p t by (simp add: attributes_or_empty_def deref_def)
  }
  assume "UploadAndPoll v f a c \<in> set (new_calls s (snd (ingest st cl rt r s)))"
  then have "a = Some (composed_attributes rt r (attributes_or_empty r s))"
    by (rule ingest_upload)
  then show "\<exists>d. a = Some d
           \<and> take (length (attributes_or_empty r s)) d = attributes_or_empty r s
           \<and> map_of d (str ''document_id'') =
               (case map_of (attributes_or_empty r s) (str ''document_id'') of
                  Some x \<Rightarrow> Some x
                | None \<Rightarrow> map_option StrV (truthy (document_id r)))
           \<and> map_of d (str ''summary'') =
               (case map_of (attributes_or_empty r s) (str ''summary'') of
                  Some x \<Rightarrow> Some x
                | None \<Rightarrow> map_option StrV (truthy (summary r)))"
    by (simp add: composed_attributes_take composed_attributes_document_id
          composed_attributes_summary)
qed

theorem caller_attributes_copied_not_overwritten_witness:
  "attributes caller_request = Some 0 \<and> (0::nat) < length (heap caller_state)
   \<and> attributes_or_empty caller_request
        (snd (ingest docs_default (mock_client [docs_store]) utc_now caller_request
                caller_state))
       = [(str ''ingested_at'', StrV (str ''1999-01-01T00:00:00+00:00'')),
          (str ''document_id'', StrV (str ''mine''))]
   \<and> UploadAndPoll (str ''vs_1'') (prepare_upload (str ''doc1.txt'') (str ''Hello world'') (str ''text/plain''))
      (Some [(str ''ingested_at'', StrV (str ''1999-01-01T00:00:00+00:00'')),
             (str ''document_id'', StrV (str ''mine''))]) None
     \<in> set (new_calls caller_state
              (snd (ingest docs_default (mock_client [docs_store]) utc_now caller_request
                      caller_state)))
   \<and> document_id caller_request = Some (str ''doc1'')
   \<and> map_of [(str ''ingested_at'', StrV (str ''1999-01-01T00:00:00+00:00'')),
              (str ''document_id'', StrV (str ''mine''))] (str ''document_id'') = Some (StrV (str ''mine''))
   \<and> UploadAndPoll (str ''vs_new'') (prepare_upload (str ''doc1.txt'') (str ''Hello world'') (str ''text/plain''))
      (Some [(str ''document_id'', StrV (str ''doc1'')),
             (str ''ingested_at'', StrV (str ''2023-11-14T22:13:20+00:00''))]) None
     \<in> set (new_calls empty_state
              (snd (ingest docs_default (mock_client []) utc_now hello_request empty_state)))
   \<and> map_of [(str ''document_id'', StrV (str ''doc1'')),
              (str ''ingested_at'', StrV (str ''2023-11-14T22:13:20+00:00''))] (str ''document_id'')
       = map_option StrV (truthy (document_id hello_request))"
proof -
  have m1: "UploadAndPoll (str ''vs_new'') (prepare_upload (str ''doc1.txt'') (str ''Hello world'') (str ''text/plain''))
      (Some [(str ''document_id'', StrV (str ''doc1'')),
             (str ''ingested_at'', StrV (str ''2023-11-14T22:13:20+00:00''))]) None
     \<in> set (new_calls empty_state
              (snd (ingest docs_default (mock_client []) utc_now hello_request empty_state)))"
    by (simp add: hello_calls)
  have m2: "UploadAndPoll (str ''vs_1'') (prepare_upload (str ''doc1.txt'') (str ''Hello world'') (str ''text/plain''))
      (Some [(str ''ingested_at'', StrV (str ''1999-01-01T00:00:00+00:00'')),
             (str ''document_id'', StrV (str ''mine''))]) None
     \<in> set (new_calls caller_state
              (snd (ingest docs_default (mock_client [docs_store]) utc_now caller_request
                      caller_state)))"
    by (simp add: caller_calls)
  have p: "attributes caller_request = Some 0 \<and> (0::nat) < length (heap caller_state)"
    by (simp add: caller_request_def caller_state_def)
  have d: "document_id caller_request = Some (str ''doc1'')"
    "truthy (document_id hello_request) = Some (str ''doc1'')"
    by (simp_all add: caller_request_def hello_request_def truthy_def)
  from m1 m2 p d
    caller_attributes_copied_not_overwritten [where s = caller_state and st = docs_default
      and cl = "mock_client [docs_store]" and rt = utc_now and r = caller_request and p = 0
      and v = "str ''vs_1''"
      and f = "prepare_upload (str ''doc1.txt'') (str ''Hello world'') (str ''text/plain'')"
      and a = "Some [(str ''ingested_at'', StrV (str ''1999-01-01T00:00:00+00:00'')),
                     (str ''document_id'', StrV (str ''mine''))]"
      and c = None]
  show ?thesis
    by (simp add: caller_attributes)
qed


section \<open>The filename of an ingestion\<close>

lemma truthy_nonempty: "truthy x = Some v \<Longrightarrow> v \<noteq> []"
  by (cases x) (auto simp: truthy_def split: if_splits)

lemma truthy_empty_string [simp]: "truthy (Some []) = None"
  by (simp add: truthy_def)

lemma truthy_None [simp]: "truthy None = None"
  by (simp add: truthy_def)

text \<open>
  The derived filename with the local \<open>slug\<close> written out, in the order of the code:
  the summary is lowered, its spaces are replaced, and the result is cut to 40.
\<close>

lemma derive_filename_eq:
  "derive_filename rt r =
     (case truthy (document_id r) of
        Some d \<Rightarrow> d @ str ''.txt''
      | None \<Rightarrow>
         (case truthy (summary r) of
                  Some sm \<Rightarrow>
                    (if take 40 (replace_spaces (str_lower rt sm)) \<noteq> []
                     then take 40 (replace_spaces (str_lower rt sm)) else str ''context'')
                      @ str ''-'' @ str_int (timestamp rt) @ str ''.txt''
                | None \<Rightarrow> str ''context-'' @ str_int (timestamp rt) @ str ''.txt''))"
  by (simp add: derive_filename_def Let_def cong: option.case_cong)

lemma derive_filename_longer:
  "truthy (document_id r) = None \<Longrightarrow> 4 < length (derive_filename rt r)"
  by (simp add: derive_filename_eq split: option.splits)

text \<open>
  Replacing spaces works code point by code point, so it commutes with cutting; a slug
  taken from a non-empty lowered summary is not empty.
\<close>

lemma take_replace_spaces: "take n (replace_spaces s) = replace_spaces (take n s)"
  by (simp add: replace_spaces_def take_map)

lemma replace_spaces_eq_Nil [simp]: "replace_spaces s = [] \<longleftrightarrow> s = []"
  by (simp add: replace_spaces_def)

lemma slug_nonempty:
  "str_lower rt sm \<noteq> [] \<Longrightarrow> take 40 (replace_spaces (str_lower rt sm)) \<noteq> []"
  by simp

lemma slug_eq_spec_slug:
  "take 40 (str_lower rt sm) = str_lower rt (take 40 sm) \<Longrightarrow>
     take 40 (replace_spaces (str_lower rt sm)) = spec_slug rt sm"
  by (simp add: take_replace_spaces spec_slug_def)

lemma ingest_result_resolved:
  assumes "fst (ingest st cl rt r s) = Inr resp"
  shows "\<exists>vs s1. ensure_vector_store st cl (vector_store_id r) (vector_store_name r)
     (case truthy (vector_store_name r) of Some x \<Rightarrow> Some [] | None \<Rightarrow> None) s = (Inr vs, s1)"
proof -
  let ?md = "case truthy (vector_store_name r) of Some x \<Rightarrow> Some [] | None \<Rightarrow> None"
  obtain res s1 where E:
    "ensure_vector_store st cl (vector_store_id r) (vector_store_name r) ?md s = (res, s1)"
    by (cases "ensure_vector_store st cl (vector_store_id r) (vector_store_name r) ?md s")
  show ?thesis
  proof (cases res)
    case (Inl e)
    with E assms show ?thesis by (simp add: ingest_failed)
  next
    case (Inr vs)
    with E show ?thesis by simp
  qed
qed

text \<open>Runs of the ingestion for requests without store id and name.\<close>

lemma docs_resolution:
  assumes "vector_store_id r = None" "vector_store_name r = None"
  shows "ensure_vector_store docs_default (mock_client []) (vector_store_id r)
     (vector_store_name r)
     (case truthy (vector_store_name r) of Some x \<Rightarrow> Some [] | None \<Rightarrow> None)
     empty_state =
   (Inr \<lparr>vs_id = str ''vs_new'', vs_name = Some (str ''docs'')\<rparr>,
    \<lparr>heap = [],
     events = [Log DEBUG (str ''Attempting to locate default vector store named %s'') [S (str ''docs'')],
               Remote (VsList 100 (str ''desc'')),
               Log INFO (str ''Creating default vector store named %s'') [S (str ''docs'')],
               Remote (VsCreate (str ''docs'') None)]\<rparr>)"
  by (simp add: assms example_defs ensure_vector_store_def truthy_def
        find_vector_store_by_name_def make_store_def emit_def Let_def)

lemma docs_result:
  assumes "vector_store_id r = None" "vector_store_name r = None"
  shows "fst (ingest docs_default (mock_client []) utc_now r empty_state) =
     Inr \<lparr>ir_vector_store_id = str ''vs_new'', ir_vector_store_name = Some (str ''docs''),
          ir_file_id = str ''file_1'',
          ir_filename =
            (case truthy (filename r) of Some f \<Rightarrow> f | None \<Rightarrow> derive_filename utc_now r),
          ir_status = str ''completed'',
          ir_attributes =
            Some (composed_attributes utc_now r (attributes_or_empty r empty_state))\<rparr>"
  unfolding ingest_success(4) [OF docs_resolution [OF assms]]
  by (simp add: mock_client_def)

lemma str_nat_digits:
  "str_nat 1700000000 = str ''1700000000''"
  by (simp add: str_nat.simps str_def)

lemma str_int_utc_now: "str_int (timestamp utc_now) = str ''1700000000''"
  by (simp add: utc_now_def str_int_def str_nat_digits)

lemma lower_latin_release_notes:
  "str_lower utc_now (str ''Release Notes'') = str ''release notes''"
  by (simp add: utc_now_def lower_latin_def lower_code_point_def str_def)

lemma slug_release_notes:
  "take 40 (replace_spaces (str_lower utc_now (str ''Release Notes''))) = str ''release-notes''"
  unfolding lower_latin_release_notes by (simp add: replace_spaces_def str_def)

text \<open>Lowering n times U+0130 gives n times the pair U+0069 U+0307.\<close>

lemma lower_latin_dotted:
  "str_lower utc_now (replicate n 304) = concat (replicate n [105, 775])"
  by (simp add: utc_now_def lower_latin_def lower_code_point_def)

lemma replace_spaces_dotted:
  "replace_spaces (concat (replicate n [105, 775])) = concat (replicate n [105, 775])"
  by (simp add: replace_spaces_def map_concat)

lemma take_pairs:
  "k \<le> n \<Longrightarrow> take (2 * k) (concat (replicate n [a, b])) = concat (replicate k [a, b])"
proof (induction n arbitrary: k)
  case 0
  then show ?case by simp
next
  case (Suc n)
  show ?case
  proof (cases k)
    case 0
    then show ?thesis by simp
  next
    case (Suc j)
    with Suc.prems have "j \<le> n" by simp
    from Suc.IH [OF this] Suc show ?thesis by simp
  qed
qed

lemma length_pairs: "length (concat (replicate n [a, b])) = 2 * n"
  by (induction n) simp_all

lemma slug_dotted:
  "take 40 (replace_spaces (str_lower utc_now (replicate 40 304)))
     = concat (replicate 20 [105, 775])"
  using take_pairs [of 20 40 105 775]
  by (simp add: lower_latin_dotted replace_spaces_dotted)

lemma spec_slug_dotted:
  "spec_slug utc_now (replicate 40 304) = concat (replicate 40 [105, 775])"
  by (simp add: spec_slug_def lower_latin_dotted replace_spaces_dotted)

lemma dotted_fields:
  "vector_store_id dotted_request = None" "vector_store_name dotted_request = None"
  "truthy (filename dotted_request) = None" "truthy (document_id dotted_request) = None"
  "truthy (summary dotted_request) = Some (replicate 40 304)"
  by (simp_all add: dotted_request_def hello_request_def truthy_def)

lemma dotted_filename:
  "derive_filename utc_now dotted_request
     = concat (replicate 20 [105, 775]) @ str ''-1700000000.txt''"
  by (simp add: dotted_fields derive_filename_eq slug_dotted str_int_utc_now)

text \<open>
  Claim C5, as the specification states it: without filename and document id, the
  filename is the slug of the first 40 characters of the summary (lowercased, spaces
  replaced with hyphens), a hyphen, the timestamp and \<open>.txt\<close>. This fails where
  lowercasing changes the number of characters. The summary here is 40 times U+0130
  (capital I with dot above), which \<open>str.lower\<close> turns into 80 code points: the slug of
  the first 40 characters has all 80 of them, the filename of the result has the first
  40 only.
\<close>

theorem slug_of_first_40_counterexample:
  "truthy (filename dotted_request) = None
   \<and> truthy (document_id dotted_request) = None
   \<and> truthy (summary dotted_request) = Some (replicate 40 304)
   \<and> str_lower utc_now (replicate 40 304) = concat (replicate 40 [105, 775])
   \<and> map_option ir_filename
        (case fst (ingest docs_default (mock_client []) utc_now dotted_request empty_state) of
           Inl e \<Rightarrow> None | Inr resp \<Rightarrow> Some resp)
       = Some (concat (replicate 20 [105, 775]) @ str ''-1700000000.txt'')
   \<and> spec_slug utc_now (replicate 40 304) @ str ''-'' @ str_int (timestamp utc_now) @ str ''.txt''
       = concat (replicate 40 [105, 775]) @ str ''-1700000000.txt''
   \<and> length (concat (replicate 20 [105, 775 :: nat]) @ str ''-1700000000.txt'') = 55
   \<and> length (concat (replicate 40 [105, 775 :: nat]) @ str ''-1700000000.txt'') = 95"
  by (simp add: dotted_fields(3-5) docs_result [OF dotted_fields(1,2)] dotted_filename
        lower_latin_dotted spec_slug_dotted str_int_utc_now length_pairs)

text \<open>
  Claim C5, amended. A field is present when it is there and not empty. For every
  ingestion request, the filename of the result is the explicit filename when one is
  given; otherwise it is the document id followed by \<open>.txt\<close> when a document id is
  present; else, when a summary is present, the first 40 characters of the lowercased
  summary with its spaces replaced by hyphens (\<open>context\<close> if that is empty), a hyphen,
  the timestamp and \<open>.txt\<close>; else \<open>context-\<close>, the timestamp and \<open>.txt\<close>.
  The alternative \<open>context\<close> is not taken when the lowercased summary is not empty, and
  the slug is the one of the first 40 characters of the summary whenever cutting to 40
  after lowercasing is the same as cutting before it.
\<close>

theorem result_filename:
  "fst (ingest st cl rt r s) = Inr resp \<Longrightarrow>
     ir_filename resp =
       (case truthy (filename r) of
          Some f \<Rightarrow> f
        | None \<Rightarrow>
           (case truthy (document_id r) of
              Some d \<Rightarrow> d @ str ''.txt''
            | None \<Rightarrow>
               (case truthy (summary r) of
                  Some sm \<Rightarrow>
                    (if take 40 (replace_spaces (str_lower rt sm)) \<noteq> []
                     then take 40 (replace_spaces (str_lower rt sm)) else str ''context'')
                      @ str ''-'' @ str_int (timestamp rt) @ str ''.txt''
                | None \<Rightarrow> str ''context-'' @ str_int (timestamp rt) @ str ''.txt'')))
     \<and> (truthy (filename r) = None \<and> truthy (document_id r) = None
          \<and> truthy (summary r) = Some sm \<and> str_lower rt sm \<noteq> [] \<longrightarrow>
        ir_filename resp =
          take 40 (replace_spaces (str_lower rt sm))
            @ str ''-'' @ str_int (timestamp rt) @ str ''.txt'')
     \<and> (truthy (filename r) = None \<and> truthy (document_id r) = None
          \<and> truthy (summary r) = Some sm \<and> str_lower rt sm \<noteq> []
          \<and> take 40 (str_lower rt sm) = str_lower rt (take 40 sm) \<longrightarrow>
        ir_filename resp =
          spec_slug rt sm @ str ''-'' @ str_int (timestamp rt) @ str ''.txt'')"
proof -
  assume a: "fst (ingest st cl rt r s) = Inr resp"
  then obtain vs s1 where
    "ensure_vector_store st cl (vector_store_id r) (vector_store_name r)
       (case truthy (vector_store_name r) of Some x \<Rightarrow> Some [] | None \<Rightarrow> None) s = (Inr vs, s1)"
    using ingest_result_resolved by blast
  from ingest_success(3) [OF this a]
  have f: "ir_filename resp =
       (case truthy (filename r) of
          Some f \<Rightarrow> f
        | None \<Rightarrow>
           (case truthy (document_id r) of
              Some d \<Rightarrow> d @ str ''.txt''
            | None \<Rightarrow>
               (case truthy (summary r) of
                  Some sm \<Rightarrow>
                    (if take 40 (replace_spaces (str_lower rt sm)) \<noteq> []
                     then take 40 (replace_spaces (str_lower rt sm)) else str ''context'')
                      @ str ''-'' @ str_int (timestamp rt) @ str ''.txt''
                | None \<Rightarrow> str ''context-'' @ str_int (timestamp rt) @ str ''.txt'')))"
    by (simp add: derive_filename_eq cong: option.case_cong)
  show ?thesis
  proof (intro conjI impI; (elim conjE)?)
    show "ir_filename resp =
       (case truthy (filename r) of
          Some f \<Rightarrow> f
        | None \<Rightarrow>
           (case truthy (document_id r) of
              Some d \<Rightarrow> d @ str ''.txt''
            | None \<Rightarrow>
               (case truthy (summary r) of
                  Some sm \<Rightarrow>
                    (if take 40 (replace_spaces (str_lower rt sm)) \<noteq> []
                     then take 40 (replace_spaces (str_lower rt sm)) else str ''context'')
                      @ str ''-'' @ str_int (timestamp rt) @ str ''.txt''
                | None \<Rightarrow> str ''context-'' @ str_int (timestamp rt) @ str ''.txt'')))"
      by (rule f)
  next
    assume "truthy (filename r) = None" "truthy (document_id r) = None"
      "truthy (summary r) = Some sm" "str_lower rt sm \<noteq> []"
    then show "ir_filename resp =
          take 40 (replace_spaces (str_lower rt sm))
            @ str ''-'' @ str_int (timestamp rt) @ str ''.txt''"
      using f by (simp add: slug_nonempty)
  next
    assume "truthy (filename r) = None" "truthy (document_id r) = None"
      "truthy (summary r) = Some sm" "str_lower rt sm \<noteq> []"
      "take 40 (str_lower rt sm) = str_lower rt (take 40 sm)"
    then show "ir_filename resp =
          spec_slug rt sm @ str ''-'' @ str_int (timestamp rt) @ str ''.txt''"
      using f slug_nonempty [of rt sm] by (simp add: slug_eq_spec_slug)
  qed
qed

text \<open>
  The theorem at five requests: with a document id, with a summary, with a summary of 40
  times U+0130, with neither, and with an explicit filename.
\<close>

theorem result_filename_witness:
  "fst (ingest docs_default (mock_client []) utc_now hello_request empty_state) =
     Inr \<lparr>ir_vector_store_id = str ''vs_new'', ir_vector_store_name = Some (str ''docs''),
          ir_file_id = str ''file_1'', ir_filename = str ''doc1.txt'', ir_status = str ''completed'',
          ir_attributes = Some [(str ''document_id'', StrV (str ''doc1'')),
                                (str ''ingested_at'', StrV (str ''2023-11-14T22:13:20+00:00''))]\<rparr>
   \<and> ir_filename
        \<lparr>ir_vector_store_id = str ''vs_new'', ir_vector_store_name = Some (str ''docs''),
         ir_file_id = str ''file_1'', ir_filename = str ''doc1.txt'', ir_status = str ''completed'',
         ir_attributes = Some [(str ''document_id'', StrV (str ''doc1'')),
                               (str ''ingested_at'', StrV (str ''2023-11-14T22:13:20+00:00''))]\<rparr>
       = str ''doc1'' @ str ''.txt''
   \<and> str_lower utc_now (str ''Release Notes'') = str ''release notes''
   \<and> take 40 (str_lower utc_now (str ''Release Notes''))
       = str_lower utc_now (take 40 (str ''Release Notes''))
   \<and> spec_slug utc_now (str ''Release Notes'') = str ''release-notes''
   \<and> (\<exists>resp. fst (ingest docs_default (mock_client []) utc_now summary_request empty_state)
          = Inr resp
        \<and> ir_filename resp = str ''release-notes-1700000000.txt'')
   \<and> (\<exists>resp. fst (ingest docs_default (mock_client []) utc_now dotted_request empty_state)
          = Inr resp
        \<and> ir_filename resp = concat (replicate 20 [105, 775]) @ str ''-1700000000.txt'')
   \<and> (\<exists>resp. fst (ingest docs_default (mock_client []) utc_now empty_id_request empty_state)
          = Inr resp
        \<and> ir_filename resp = str ''context-1700000000.txt'')
   \<and> (\<exists>resp. fst (ingest docs_default (mock_client []) utc_now
                     (hello_request\<lparr>filename := Some (str ''notes.md'')\<rparr>) empty_state)
          = Inr resp
        \<and> ir_filename resp = str ''notes.md'')"
proof -
  have h: "fst (ingest docs_default (mock_client []) utc_now hello_request empty_state) =
     Inr \<lparr>ir_vector_store_id = str ''vs_new'', ir_vector_store_name = Some (str ''docs''),
          ir_file_id = str ''file_1'', ir_filename = str ''doc1.txt'', ir_status = str ''completed'',
          ir_attributes = Some [(str ''document_id'', StrV (str ''doc1'')),
                                (str ''ingested_at'', StrV (str ''2023-11-14T22:13:20+00:00''))]\<rparr>"
  proof -
    have "vector_store_id hello_request = None" "vector_store_name hello_request = None"
      by (simp_all add: hello_request_def)
    from docs_result [OF this] show ?thesis
      by (simp add: hello_composed hello_filename)
  qed
  obtain r2 where r2:
    "fst (ingest docs_default (mock_client []) utc_now summary_request empty_state) = Inr r2"
    by (simp add: docs_result summary_request_def hello_request_def)
  obtain r3 where r3:
    "fst (ingest docs_default (mock_client []) utc_now empty_id_request empty_state) = Inr r3"
    by (simp add: docs_result empty_id_request_def hello_request_def)
  obtain r4 where r4:
    "fst (ingest docs_default (mock_client []) utc_now
            (hello_request\<lparr>filename := Some (str ''notes.md'')\<rparr>) empty_state) = Inr r4"
    by (simp add: docs_result hello_request_def)
  obtain r5 where r5:
    "fst (ingest docs_default (mock_client []) utc_now dotted_request empty_state) = Inr r5"
    by (simp add: docs_result dotted_fields)
  have t: "truthy (Some (str ''Release Notes'')) = Some (str ''Release Notes'')"
    "truthy (Some (str ''notes.md'')) = Some (str ''notes.md'')"
    by (simp_all add: truthy_def)
  have c: "take 40 (str ''Release Notes'') = str ''Release Notes''"
    by (simp add: str_def)
  have l: "str_lower utc_now (str ''Release Notes'') = str ''release notes''"
    by (rule lower_latin_release_notes)
  have p: "spec_slug utc_now (str ''Release Notes'') = str ''release-notes''"
    unfolding spec_slug_def c l by (simp add: replace_spaces_def str_def)
  have q: "take 40 (str ''release notes'') = str ''release notes''"
    "replace_spaces (str ''release notes'') = str ''release-notes''"
    "take 40 (str ''release-notes'') = str ''release-notes''"
    by (simp_all add: replace_spaces_def str_def)
  have d: "str_lower utc_now (replicate 40 304) \<noteq> []"
    using length_pairs [of 40 105 775] by (auto simp: lower_latin_dotted)
  from result_filename [OF h]
    result_filename [OF r2, where sm = "str ''Release Notes''"]
    result_filename [OF r3] result_filename [OF r4]
    result_filename [OF r5, where sm = "replicate 40 304"]
    h r2 r3 r4 r5
  show ?thesis
    by (simp add: summary_request_def empty_id_request_def hello_request_def t c l p q d
          dotted_fields slug_dotted str_int_utc_now)
qed

section \<open>Empty strings\<close>

lemma derive_filename_cong:
  "truthy (document_id r) = truthy (document_id r') \<Longrightarrow>
   truthy (summary r) = truthy (summary r') \<Longrightarrow>
     derive_filename rt r = derive_filename rt r'"
  by (simp add: derive_filename_def cong: option.case_cong)

lemma composed_attributes_cong:
  "truthy (document_id r) = truthy (document_id r') \<Longrightarrow>
   truthy (summary r) = truthy (summary r') \<Longrightarrow>
     composed_attributes rt r d = composed_attributes rt r' d"
  by (simp add: composed_attributes_def cong: option.case_cong)

text \<open>
  The ingestion reads \<open>document_id\<close> and \<open>summary\<close> only through their truthiness.
\<close>

lemma ingest_cong:
  assumes "truthy (document_id r) = truthy (document_id r')"
    and "truthy (summary r) = truthy (summary r')"
    and "content r = content r'" "vector_store_id r = vector_store_id r'"
    and "vector_store_name r = vector_store_name r'" "filename r = filename r'"
    and "attributes r = attributes r'" "chunking_strategy r = chunking_strategy r'"
    and "mime_type r = mime_type r'"
  shows "ingest st cl rt r s = ingest st cl rt r' s"
proof -
  have d: "derive_filename rt r = derive_filename rt r'"
    using assms(1,2) by (rule derive_filename_cong)
  have a: "\<And>t. attributes_or_empty r t = attributes_or_empty r' t"
    by (simp add: attributes_or_empty_def assms)
  show ?thesis
    unfolding ingest_def by (simp only: assms d a)
qed

text \<open>
  Claim C10. An empty-string \<open>document_id\<close> or \<open>summary\<close> behaves exactly as if the field
  were absent: the whole ingestion (result, calls, log and heap) is the same as with the
  field absent; the derived filename is the one of the next rule and is never \<open>.txt\<close>;
  and an upload of a request with an empty \<open>document_id\<close> (or \<open>summary\<close>) carries under that
  key just what the caller's attributes hold under it, nothing derived.
\<close>

theorem empty_string_fields_as_absent:
  "ingest st cl rt (r\<lparr>document_id := Some []\<rparr>) s
     = ingest st cl rt (r\<lparr>document_id := None\<rparr>) s
   \<and> ingest st cl rt (r\<lparr>summary := Some []\<rparr>) s
     = ingest st cl rt (r\<lparr>summary := None\<rparr>) s
   \<and> derive_filename rt (r\<lparr>document_id := Some []\<rparr>)
     = derive_filename rt (r\<lparr>document_id := None\<rparr>)
   \<and> derive_filename rt (r\<lparr>summary := Some []\<rparr>)
     = derive_filename rt (r\<lparr>summary := None\<rparr>)
   \<and> derive_filename rt (r\<lparr>document_id := Some []\<rparr>) \<noteq> str ''.txt''
   \<and> derive_filename rt (r\<lparr>document_id := Some []\<rparr>)
     = (case truthy (summary r) of
          Some sm \<Rightarrow>
            (if take 40 (replace_spaces (str_lower rt sm)) \<noteq> []
             then take 40 (replace_spaces (str_lower rt sm)) else str ''context'')
              @ str ''-'' @ str_int (timestamp rt) @ str ''.txt''
        | None \<Rightarrow> str ''context-'' @ str_int (timestamp rt) @ str ''.txt'')
   \<and> (UploadAndPoll v f a c
         \<in> set (new_calls s (snd (ingest st cl rt (r\<lparr>document_id := Some []\<rparr>) s))) \<longrightarrow>
        (\<exists>d. a = Some d
           \<and> map_of d (str ''document_id'') = map_of (attributes_or_empty r s) (str ''document_id'')))
   \<and> (UploadAndPoll v f a c
         \<in> set (new_calls s (snd (ingest st cl rt (r\<lparr>summary := Some []\<rparr>) s))) \<longrightarrow>
        (\<exists>d. a = Some d
           \<and> map_of d (str ''summary'') = map_of (attributes_or_empty r s) (str ''summary'')))"
proof (intro conjI impI)
  show "ingest st cl rt (r\<lparr>document_id := Some []\<rparr>) s
     = ingest st cl rt (r\<lparr>document_id := None\<rparr>) s"
    by (rule ingest_cong) simp_all
  show "ingest st cl rt (r\<lparr>summary := Some []\<rparr>) s
     = ingest st cl rt (r\<lparr>summary := None\<rparr>) s"
    by (rule ingest_cong) simp_all
  show "derive_filename rt (r\<lparr>document_id := Some []\<rparr>)
     = derive_filename rt (r\<lparr>document_id := None\<rparr>)"
    by (rule derive_filename_cong) simp_all
  show "derive_filename rt (r\<lparr>summary := Some []\<rparr>)
     = derive_filename rt (r\<lparr>summary := None\<rparr>)"
    by (rule derive_filename_cong) simp_all
  show "derive_filename rt (r\<lparr>document_id := Some []\<rparr>) \<noteq> str ''.txt''"
    using derive_filename_longer [of "r\<lparr>document_id := Some []\<rparr>" rt] by auto
  show "derive_filename rt (r\<lparr>document_id := Some []\<rparr>)
     = (case truthy (summary r) of
          Some sm \<Rightarrow>
            (if take 40 (replace_spaces (str_lower rt sm)) \<noteq> []
             then take 40 (replace_spaces (str_lower rt sm)) else str ''context'')
              @ str ''-'' @ str_int (timestamp rt) @ str ''.txt''
        | None \<Rightarrow> str ''context-'' @ str_int (timestamp rt) @ str ''.txt'')"
    by (simp add: derive_filename_eq cong: option.case_cong)
next
  assume "UploadAndPoll v f a c
      \<in> set (new_calls s (snd (ingest st cl rt (r\<lparr>document_id := Some []\<rparr>) s)))"
  from ingest_upload [OF this]
  show "\<exists>d. a = Some d
      \<and> map_of d (str ''document_id'') = map_of (attributes_or_empty r s) (str ''document_id'')"
    by (simp add: composed_attributes_document_id attributes_or_empty_def
          split: option.splits)
next
  assume "UploadAndPoll v f a c
      \<in> set (new_calls s (snd (ingest st cl rt (r\<lparr>summary := Some []\<rparr>) s)))"
  from ingest_upload [OF this]
  show "\<exists>d. a = Some d
      \<and> map_of d (str ''summary'') = map_of (attributes_or_empty r s) (str ''summary'')"
    by (simp add: composed_attributes_summary attributes_or_empty_def
          split: option.splits)
qed

lemma empty_id_calls:
  "new_calls empty_state
     (snd (ingest docs_default (mock_client []) utc_now empty_id_request empty_state)) =
   [VsList 100 (str ''desc''), VsCreate (str ''docs'') None,
    UploadAndPoll (str ''vs_new'')
      (prepare_upload (str ''context-1700000000.txt'') (str ''Hello world'') (str ''text/plain''))
      (Some [(str ''ingested_at'', StrV (str ''2023-11-14T22:13:20+00:00''))])
      None]"
proof -
  have r: "vector_store_id empty_id_request = None" "vector_store_name empty_id_request = None"
    by (simp_all add: empty_id_request_def hello_request_def)
  have c: "composed_attributes utc_now empty_id_request
             (attributes_or_empty empty_id_request empty_state)
           = [(str ''ingested_at'', StrV (str ''2023-11-14T22:13:20+00:00''))]"
    by (simp add: example_defs empty_id_request_def composed_attributes_def
          attributes_or_empty_def dict_setdefault_def Let_def)
  have f: "(case truthy (filename empty_id_request) of
              Some f \<Rightarrow> f | None \<Rightarrow> derive_filename utc_now empty_id_request)
           = str ''context-1700000000.txt''"
    by (simp add: empty_id_request_def hello_request_def derive_filename_eq
          str_int_utc_now)
  have "calls (snd (ingest docs_default (mock_client []) utc_now empty_id_request empty_state))
    = calls empty_state @ [VsList 100 (str ''desc''), VsCreate (str ''docs'') None,
      UploadAndPoll (str ''vs_new'')
        (prepare_upload (str ''context-1700000000.txt'') (str ''Hello world'') (str ''text/plain''))
        (Some [(str ''ingested_at'', StrV (str ''2023-11-14T22:13:20+00:00''))])
        None]"
    unfolding ingest_success(1) [OF docs_resolution [OF r]] c f
    by (simp add: calls_def empty_state_def empty_id_request_def hello_request_def)
  then show ?thesis by (rule new_calls_append)
qed

theorem empty_string_fields_as_absent_witness:
  "UploadAndPoll (str ''vs_new'')
      (prepare_upload (str ''context-1700000000.txt'') (str ''Hello world'') (str ''text/plain''))
      (Some [(str ''ingested_at'', StrV (str ''2023-11-14T22:13:20+00:00''))]) None
     \<in> set (new_calls empty_state
          (snd (ingest docs_default (mock_client []) utc_now
                  (hello_request\<lparr>document_id := Some []\<rparr>) empty_state)))
   \<and> map_of [(str ''ingested_at'', StrV (str ''2023-11-14T22:13:20+00:00''))] (str ''document_id'') = None
   \<and> map_of (attributes_or_empty hello_request empty_state) (str ''document_id'') = None
   \<and> ingest docs_default (mock_client []) utc_now
        (hello_request\<lparr>document_id := Some []\<rparr>) empty_state
       = ingest docs_default (mock_client []) utc_now
           (hello_request\<lparr>document_id := None\<rparr>) empty_state
   \<and> derive_filename utc_now (hello_request\<lparr>document_id := Some []\<rparr>)
       = str ''context-1700000000.txt''"
proof -
  have m: "UploadAndPoll (str ''vs_new'')
      (prepare_upload (str ''context-1700000000.txt'') (str ''Hello world'') (str ''text/plain''))
      (Some [(str ''ingested_at'', StrV (str ''2023-11-14T22:13:20+00:00''))]) None
     \<in> set (new_calls empty_state
          (snd (ingest docs_default (mock_client []) utc_now
                  (hello_request\<lparr>document_id := Some []\<rparr>) empty_state)))"
    using empty_id_calls by (simp add: empty_id_request_def)
  have s: "truthy (summary hello_request) = None"
    by (simp add: hello_request_def)
  have a: "attributes_or_empty hello_request empty_state = []"
    by (simp add: attributes_or_empty_def hello_request_def)
  note T =
    empty_string_fields_as_absent [where st = docs_default and cl = "mock_client []"
      and rt = utc_now and r = hello_request and s = empty_state and v = "str ''vs_new''"
      and f = "prepare_upload (str ''context-1700000000.txt'') (str ''Hello world'') (str ''text/plain'')"
      and a = "Some [(str ''ingested_at'', StrV (str ''2023-11-14T22:13:20+00:00''))]" and c = None]
  from T have e: "ingest docs_default (mock_client []) utc_now
        (hello_request\<lparr>document_id := Some []\<rparr>) empty_state
       = ingest docs_default (mock_client []) utc_now
           (hello_request\<lparr>document_id := None\<rparr>) empty_state"
    by blast
  from T have d: "derive_filename utc_now (hello_request\<lparr>document_id := Some []\<rparr>)
     = (case truthy (summary hello_request) of
          Some sm \<Rightarrow>
            (if take 40 (replace_spaces (str_lower utc_now sm)) \<noteq> []
             then take 40 (replace_spaces (str_lower utc_now sm)) else str ''context'')
              @ str ''-'' @ str_int (timestamp utc_now) @ str ''.txt''
        | None \<Rightarrow> str ''context-'' @ str_int (timestamp utc_now) @ str ''.txt'')"
    by blast
  from T m have u: "\<exists>d. Some [(str ''ingested_at'', StrV (str ''2023-11-14T22:13:20+00:00''))] = Some d
      \<and> map_of d (str ''document_id'') = map_of (attributes_or_empty hello_request empty_state)
            (str ''document_id'')"
    by blast
  show ?thesis
    using m u by (simp add: e d s a str_int_utc_now)
qed


section \<open>Facts about the retrieval\<close>

lemma collect_eq:
  "collect thr rs acc =
     acc @ map chunk_of
             (filter (\<lambda>r. case thr of None \<Rightarrow> True
                                 | Some T \<Rightarrow> \<not> float_lt (sr_score r) T) rs)"
  by (induction rs arbitrary: acc) (auto split: option.splits)

lemma retrieve_failed:
  "ensure_vector_store st cl (rq_vector_store_id req) None None s = (Inl e, s1)
   \<Longrightarrow> retrieve st cl req s = (Inl e, s1)"
  by (simp add: retrieve_def)

lemma retrieve_success:
  assumes "ensure_vector_store st cl (rq_vector_store_id req) None None s = (Inr vs, s1)"
  shows "fst (retrieve st cl req s) =
           (case search_store cl (vs_id vs) (build_search_kwargs st req) of
              Inl e \<Rightarrow> Inl e
            | Inr found \<Rightarrow>
                Inr \<lparr>rr_vector_store_id = vs_id vs, rr_query = query req,
                     results = collect (score_threshold req) found []\<rparr>)"
    and "calls (snd (retrieve st cl req s)) =
           calls s1 @ [VsSearch (vs_id vs) (build_search_kwargs st req)]"
  using assms by (simp_all add: retrieve_def Let_def split: sum.splits)

lemma retrieve_new_calls:
  "new_calls s (snd (retrieve st cl req s)) =
     new_calls s (snd (ensure_vector_store st cl (rq_vector_store_id req) None None s))
     @ (case fst (ensure_vector_store st cl (rq_vector_store_id req) None None s) of
          Inl e \<Rightarrow> []
        | Inr vs \<Rightarrow> [VsSearch (vs_id vs) (build_search_kwargs st req)])"
proof -
  obtain res s1 where E:
    "ensure_vector_store st cl (rq_vector_store_id req) None None s = (res, s1)"
    by (cases "ensure_vector_store st cl (rq_vector_store_id req) None None s")
  obtain cs where cs: "calls s1 = calls s @ cs"
    using ensure_calls_extend [of st cl "rq_vector_store_id req" None None s]
    by (auto simp: E)
  show ?thesis
  proof (cases res)
    case (Inl e)
    with E show ?thesis by (simp add: retrieve_failed)
  next
    case (Inr vs)
    with E retrieve_success(2) [OF E [unfolded Inr]] cs show ?thesis
      by (simp add: new_calls_def)
  qed
qed

lemma ingest_new_calls:
  "\<exists>cs. new_calls s (snd (ingest st cl rt r s)) =
     new_calls s (snd (ensure_vector_store st cl (vector_store_id r) (vector_store_name r)
        (case truthy (vector_store_name r) of Some x \<Rightarrow> Some [] | None \<Rightarrow> None) s)) @ cs
     \<and> (cs = [] \<or> (\<exists>v f a c. cs = [UploadAndPoll v f a c]))"
proof -
  let ?md = "case truthy (vector_store_name r) of Some x \<Rightarrow> Some [] | None \<Rightarrow> None"
  obtain res s1 where E:
    "ensure_vector_store st cl (vector_store_id r) (vector_store_name r) ?md s = (res, s1)"
    by (cases "ensure_vector_store st cl (vector_store_id r) (vector_store_name r) ?md s")
  show ?thesis
  proof (cases res)
    case (Inl e)
    with E show ?thesis by (simp add: ingest_failed)
  next
    case (Inr vs)
    then have "fst (ensure_vector_store st cl (vector_store_id r) (vector_store_name r) ?md s)
        = Inr vs"
      using E by simp
    from ingest_issues_upload [OF this, of rt] show ?thesis by blast
  qed
qed

text \<open>The resolution reads the name only through its truthiness.\<close>

lemma ensure_vector_store_name_cong:
  "truthy vname = truthy vname' \<Longrightarrow>
     ensure_vector_store st cl vid vname md s = ensure_vector_store st cl vid vname' md s"
  by (simp add: ensure_vector_store_def cong: option.case_cong)

text \<open>When a resolution issues a create call.\<close>

lemma ensure_creates:
  "VsCreate n m \<in> set (new_calls s (snd (ensure_vector_store st cl vid vname md s))) \<longleftrightarrow>
     m = md \<and> truthy vid = None
     \<and> (truthy vname = Some n
          \<or> (truthy vname = None \<and> truthy (default_vector_store_id st) = None
               \<and> truthy (default_vector_store_name st) = Some n))
     \<and> (case list_stores cl of
           Inl e \<Rightarrow> True
         | Inr pages \<Rightarrow> first_named n pages = Inr None)"
proof -
  consider i where "truthy vid = Some i"
    | n' where "truthy vid = None" "truthy vname = Some n'"
    | i where "truthy vid = None" "truthy vname = None"
        "truthy (default_vector_store_id st) = Some i"
    | n' where "truthy vid = None" "truthy vname = None"
        "truthy (default_vector_store_id st) = None"
        "truthy (default_vector_store_name st) = Some n'"
    | "truthy vid = None" "truthy vname = None"
        "truthy (default_vector_store_id st) = None"
        "truthy (default_vector_store_name st) = None"
    by (metis option.exhaust)
  then show ?thesis
  proof cases
    case 1
    then show ?thesis by (simp add: ensure_by_id fetch_store_eq new_calls_def)
  next
    case 2
    from find_or_create(1)
      [OF ensure_by_name [OF 2, where st = st and cl = cl and md = md and s = s],
        where s = s, simplified]
    show ?thesis using 2
      by (cases "list_stores cl") (auto simp: new_calls_def split: option.splits sum.splits)
  next
    case 3
    then show ?thesis by (simp add: ensure_by_default_id fetch_store_eq new_calls_def)
  next
    case 4
    from find_or_create(1)
      [OF ensure_by_default_name [OF 4, where cl = cl and md = md and s = s],
        where s = s, simplified]
    show ?thesis using 4
      by (cases "list_stores cl") (auto simp: new_calls_def split: option.splits sum.splits)
  next
    case 5
    then show ?thesis by (simp add: ensure_unconfigured new_calls_def)
  qed
qed

section \<open>The score threshold\<close>

text \<open>
  A retrieval with threshold 0.8 against a store whose search returns the scores
  0.95, 0.6 and 0.8, and the same retrieval with the threshold NaN.
\<close>

lemma auth_resolution:
  "ensure_vector_store docs_default (mock_client [docs_store])
     (rq_vector_store_id auth_request) None None empty_state =
   (Inr docs_store,
    \<lparr>heap = [],
     events = [Log DEBUG (str ''Attempting to locate default vector store named %s'') [S (str ''docs'')],
               Remote (VsList 100 (str ''desc''))]\<rparr>)"
  by (simp add: example_defs ensure_vector_store_def truthy_def find_vector_store_by_name_def
        make_store_def emit_def Let_def)

lemma example_scores:
  "sr_score high_result = Fin (95 / 100)" "sr_score low_result = Fin (6 / 10)"
  "sr_score edge_result = Fin (8 / 10)" "sr_score nan_result = NaN"
  by (simp_all add: high_result_def low_result_def edge_result_def nan_result_def)

lemma auth_search:
  "search_store (mock_client [docs_store]) (vs_id docs_store)
     (build_search_kwargs docs_default req)
   = Inr [high_result, low_result, edge_result]"
  by (simp add: mock_client_def)

lemma auth_result:
  "fst (retrieve docs_default (mock_client [docs_store]) auth_request empty_state) =
     Inr \<lparr>rr_vector_store_id = str ''vs_1'', rr_query = str ''auth'',
          results = [chunk_of high_result, chunk_of edge_result]\<rparr>"
proof -
  have q: "query auth_request = str ''auth''"
    "score_threshold auth_request = Some (Fin (8 / 10))"
    "vs_id docs_store = str ''vs_1''"
    by (simp_all add: auth_request_def docs_store_def)
  show ?thesis
    unfolding retrieve_success(1) [OF auth_resolution] auth_search
    by (simp add: q collect_eq example_scores)
qed

lemma nan_threshold_result:
  "fst (retrieve docs_default (mock_client [docs_store])
          (auth_request\<lparr>score_threshold := Some NaN\<rparr>) empty_state) =
     Inr \<lparr>rr_vector_store_id = str ''vs_1'', rr_query = str ''auth'',
          results = [chunk_of high_result, chunk_of low_result, chunk_of edge_result]\<rparr>"
proof -
  have r: "ensure_vector_store docs_default (mock_client [docs_store])
     (rq_vector_store_id (auth_request\<lparr>score_threshold := Some NaN\<rparr>)) None None empty_state =
   (Inr docs_store,
    \<lparr>heap = [],
     events = [Log DEBUG (str ''Attempting to locate default vector store named %s'') [S (str ''docs'')],
               Remote (VsList 100 (str ''desc''))]\<rparr>)"
    using auth_resolution by simp
  have q: "query auth_request = str ''auth''" "vs_id docs_store = str ''vs_1''"
    by (simp_all add: auth_request_def docs_store_def)
  show ?thesis
    unfolding retrieve_success(1) [OF r] auth_search
    by (simp add: q collect_eq)
qed

text \<open>
  Claim C4, as the specification states it: the retained results are exactly those whose
  score is greater than or equal to the threshold. The code drops a result when its
  score is smaller than the threshold, which is not the same for floats: with NaN on
  either side both comparisons are false. With the threshold NaN no score is greater
  than or equal to it, and the retrieval keeps all three results; with the threshold 0.8
  a result whose score is NaN is kept.
\<close>

theorem score_threshold_nan_counterexample:
  "fst (retrieve docs_default (mock_client [docs_store])
          (auth_request\<lparr>score_threshold := Some NaN\<rparr>) empty_state) =
     Inr \<lparr>rr_vector_store_id = str ''vs_1'', rr_query = str ''auth'',
          results = [chunk_of high_result, chunk_of low_result, chunk_of edge_result]\<rparr>
   \<and> filter (\<lambda>r. float_ge (sr_score r) NaN) [high_result, low_result, edge_result] = []
   \<and> collect (Some (Fin (8 / 10))) [nan_result, low_result] [] = [chunk_of nan_result]
   \<and> filter (\<lambda>r. float_ge (sr_score r) (Fin (8 / 10))) [nan_result, low_result] = []"
  by (simp add: nan_threshold_result example_scores)

text \<open>
  Claim C4, amended. For every threshold \<open>T\<close> and every sequence of search results, the
  loop of the retrieval keeps exactly the results whose score is not smaller than \<open>T\<close>,
  in their original order; without a threshold it keeps all of them. When neither the
  threshold nor a score is NaN, these are exactly the results whose score is greater
  than or equal to \<open>T\<close> (equal passes, smaller is dropped). The results of a retrieval
  that returns are the results of the search call, filtered so.
\<close>

theorem score_threshold_filter:
  "collect (Some T) rs [] = map chunk_of (filter (\<lambda>r. \<not> float_lt (sr_score r) T) rs)
   \<and> collect None rs [] = map chunk_of rs
   \<and> (T \<noteq> NaN \<and> (\<forall>r \<in> set rs. sr_score r \<noteq> NaN) \<longrightarrow>
        collect (Some T) rs [] = map chunk_of (filter (\<lambda>r. float_ge (sr_score r) T) rs))
   \<and> (fst (retrieve st cl req s) = Inr resp \<longrightarrow>
        (\<exists>(vs :: VectorStore) found.
           search_store cl (vs_id vs) (build_search_kwargs st req) = Inr found
           \<and> rr_vector_store_id resp = vs_id vs
           \<and> results resp =
               map chunk_of
                 (filter (\<lambda>r. case score_threshold req of
                                 None \<Rightarrow> True
                               | Some T \<Rightarrow> \<not> float_lt (sr_score r) T) found)))"
proof (intro conjI impI)
  show "collect (Some T) rs [] = map chunk_of (filter (\<lambda>r. \<not> float_lt (sr_score r) T) rs)"
    by (simp add: collect_eq)
  show "collect None rs [] = map chunk_of rs"
    by (simp add: collect_eq)
next
  assume n: "T \<noteq> NaN \<and> (\<forall>r \<in> set rs. sr_score r \<noteq> NaN)"
  then have "filter (\<lambda>r. \<not> float_lt (sr_score r) T) rs
      = filter (\<lambda>r. float_ge (sr_score r) T) rs"
    by (intro filter_cong refl) (simp add: float_ge_iff_not_lt)
  then show "collect (Some T) rs [] = map chunk_of (filter (\<lambda>r. float_ge (sr_score r) T) rs)"
    by (simp add: collect_eq)
next
  assume a: "fst (retrieve st cl req s) = Inr resp"
  obtain res s1 where E:
    "ensure_vector_store st cl (rq_vector_store_id req) None None s = (res, s1)"
    by (cases "ensure_vector_store st cl (rq_vector_store_id req) None None s")
  show "\<exists>(vs :: VectorStore) found.
           search_store cl (vs_id vs) (build_search_kwargs st req) = Inr found
           \<and> rr_vector_store_id resp = vs_id vs
           \<and> results resp =
               map chunk_of
                 (filter (\<lambda>r. case score_threshold req of
                                 None \<Rightarrow> True
                               | Some T \<Rightarrow> \<not> float_lt (sr_score r) T) found)"
  proof (cases res)
    case (Inl e)
    with E a show ?thesis by (simp add: retrieve_failed)
  next
    case (Inr vs)
    from retrieve_success(1) [OF E [unfolded Inr]] a
    obtain found where f:
      "search_store cl (vs_id vs) (build_search_kwargs st req) = Inr found"
      "resp = \<lparr>rr_vector_store_id = vs_id vs, rr_query = query req,
               results = collect (score_threshold req) found []\<rparr>"
      by (auto split: sum.splits)
    show ?thesis
      by (rule exI [where x = vs], rule exI [where x = found]) (simp add: f collect_eq)
  qed
qed

text \<open>
  The theorem at the retrieval with threshold 0.8: of the scores 0.95, 0.6 and 0.8, the
  first and the third result are kept, in that order.
\<close>

theorem score_threshold_filter_witness:
  "fst (retrieve docs_default (mock_client [docs_store]) auth_request empty_state) =
     Inr \<lparr>rr_vector_store_id = str ''vs_1'', rr_query = str ''auth'',
          results = [chunk_of high_result, chunk_of edge_result]\<rparr>
   \<and> score_threshold auth_request = Some (Fin (8 / 10))
   \<and> sr_score high_result = Fin (95 / 100) \<and> sr_score low_result = Fin (6 / 10)
   \<and> sr_score edge_result = Fin (8 / 10)
   \<and> Fin (8 / 10) \<noteq> NaN
   \<and> (\<exists>(vs :: VectorStore) found.
         search_store (mock_client [docs_store]) (vs_id vs)
           (build_search_kwargs docs_default auth_request) = Inr found
         \<and> found = [high_result, low_result, edge_result]
         \<and> [chunk_of high_result, chunk_of edge_result] =
             map chunk_of (filter (\<lambda>r. float_ge (sr_score r) (Fin (8 / 10))) found))
   \<and> collect (Some (Fin (8 / 10))) [high_result, low_result, edge_result] []
       = map chunk_of
           (filter (\<lambda>r. float_ge (sr_score r) (Fin (8 / 10)))
              [high_result, low_result, edge_result])
   \<and> collect (Some (Fin (8 / 10))) [high_result, low_result, edge_result] []
       = [chunk_of high_result, chunk_of edge_result]"
proof -
  note T = score_threshold_filter [where st = docs_default
      and cl = "mock_client [docs_store]" and req = auth_request and s = empty_state
      and resp = "\<lparr>rr_vector_store_id = str ''vs_1'', rr_query = str ''auth'',
                     results = [chunk_of high_result, chunk_of edge_result]\<rparr>"
      and T = "Fin (8 / 10)" and rs = "[high_result, low_result, edge_result]"]
  from T
  have c: "collect (Some (Fin (8 / 10))) [high_result, low_result, edge_result] []
       = map chunk_of
           (filter (\<lambda>r. float_ge (sr_score r) (Fin (8 / 10)))
              [high_result, low_result, edge_result])"
    by (simp add: example_scores)
  have q: "score_threshold auth_request = Some (Fin (8 / 10))"
    by (simp add: auth_request_def)
  have e: "\<exists>(vs :: VectorStore) found.
         search_store (mock_client [docs_store]) (vs_id vs)
           (build_search_kwargs docs_default auth_request) = Inr found
         \<and> found = [high_result, low_result, edge_result]
         \<and> [chunk_of high_result, chunk_of edge_result] =
             map chunk_of (filter (\<lambda>r. float_ge (sr_score r) (Fin (8 / 10))) found)"
    by (rule exI [where x = docs_store],
        rule exI [where x = "[high_result, low_result, edge_result]"])
       (simp add: auth_search example_scores)
  show ?thesis
    using auth_result c q e example_scores by simp
qed

section \<open>Store creation by a retrieval\<close>

text \<open>
  Claim C2. Retrieval resolves its store with the same resolution function as ingestion,
  always without a name of its own: its request has no such field, so the name a
  retrieval is given is the configured default name. A retrieval creates a store exactly
  when no id is present in the request, no default id is configured, a default name is
  configured and the listing ends without a store of that name (or the list call
  failed): it then creates the store of the default name, without metadata, as an
  ingestion without id and name does. The create calls of a retrieval are those of an
  ingestion with the same id and no name.
\<close>

theorem retrieval_creates_only_by_default_name:
  "(\<exists>cs. new_calls s (snd (retrieve st cl req s)) =
           new_calls s (snd (ensure_vector_store st cl (rq_vector_store_id req) None None s))
           @ cs)
   \<and> (VsCreate n m \<in> set (new_calls s (snd (retrieve st cl req s))) \<longleftrightarrow>
        m = None \<and> truthy (rq_vector_store_id req) = None
        \<and> truthy (default_vector_store_id st) = None
        \<and> truthy (default_vector_store_name st) = Some n
        \<and> (case list_stores cl of
              Inl e \<Rightarrow> True
            | Inr pages \<Rightarrow> first_named n pages = Inr None))
   \<and> (vector_store_id r = rq_vector_store_id req \<and> truthy (vector_store_name r) = None \<longrightarrow>
        filter is_create (new_calls s (snd (ingest st cl rt r s)))
          = filter is_create (new_calls s (snd (retrieve st cl req s))))"
proof (intro conjI impI)
  show "\<exists>cs. new_calls s (snd (retrieve st cl req s)) =
           new_calls s (snd (ensure_vector_store st cl (rq_vector_store_id req) None None s))
           @ cs"
    using retrieve_new_calls [of s st cl req] by blast
  have nc: "VsCreate n m \<notin> set (case fst (ensure_vector_store st cl (rq_vector_store_id req)
                None None s) of
          Inl e \<Rightarrow> []
        | Inr vs \<Rightarrow> [VsSearch (vs_id vs) (build_search_kwargs st req)])"
    by (simp split: sum.splits)
  show "VsCreate n m \<in> set (new_calls s (snd (retrieve st cl req s))) \<longleftrightarrow>
        m = None \<and> truthy (rq_vector_store_id req) = None
        \<and> truthy (default_vector_store_id st) = None
        \<and> truthy (default_vector_store_name st) = Some n
        \<and> (case list_stores cl of
              Inl e \<Rightarrow> True
            | Inr pages \<Rightarrow> first_named n pages = Inr None)"
    using nc ensure_creates [of n m s st cl "rq_vector_store_id req" None None]
    by (simp add: retrieve_new_calls)
next
  assume a: "vector_store_id r = rq_vector_store_id req \<and> truthy (vector_store_name r) = None"
  then have e: "ensure_vector_store st cl (vector_store_id r) (vector_store_name r)
        (case truthy (vector_store_name r) of Some x \<Rightarrow> Some [] | None \<Rightarrow> None) s
      = ensure_vector_store st cl (rq_vector_store_id req) None None s"
    using ensure_vector_store_name_cong [of "vector_store_name r" None st cl
        "rq_vector_store_id req" None s]
    by simp
  obtain cs where cs: "new_calls s (snd (ingest st cl rt r s)) =
      new_calls s (snd (ensure_vector_store st cl (rq_vector_store_id req) None None s)) @ cs"
    "cs = [] \<or> (\<exists>v f a c. cs = [UploadAndPoll v f a c])"
    using ingest_new_calls [of s st cl rt r] by (auto simp: e)
  have "filter is_create cs = []"
    using cs(2) by (auto simp: is_create_def)
  moreover have "filter is_create
      (case fst (ensure_vector_store st cl (rq_vector_store_id req) None None s) of
          Inl e \<Rightarrow> []
        | Inr vs \<Rightarrow> [VsSearch (vs_id vs) (build_search_kwargs st req)]) = []"
    by (simp add: is_create_def split: sum.splits)
  ultimately show "filter is_create (new_calls s (snd (ingest st cl rt r s)))
          = filter is_create (new_calls s (snd (retrieve st cl req s)))"
    by (simp add: cs(1) retrieve_new_calls)
qed

theorem retrieval_creates_only_by_default_name_witness:
  "truthy (rq_vector_store_id auth_request) = None
   \<and> truthy (default_vector_store_id docs_default) = None
   \<and> truthy (default_vector_store_name docs_default) = Some (str ''docs'')
   \<and> list_stores (mock_client []) = Inr Stop
   \<and> first_named (str ''docs'') Stop = Inr None
   \<and> VsCreate (str ''docs'') None
       \<in> set (new_calls empty_state
                (snd (retrieve docs_default (mock_client []) auth_request empty_state)))
   \<and> vector_store_id hello_request = rq_vector_store_id auth_request
   \<and> truthy (vector_store_name hello_request) = None
   \<and> filter is_create
        (new_calls empty_state
           (snd (retrieve docs_default (mock_client []) auth_request empty_state)))
       = [VsCreate (str ''docs'') None]"
proof -
  have h: "truthy (rq_vector_store_id auth_request) = None"
    "truthy (default_vector_store_id docs_default) = None"
    "truthy (default_vector_store_name docs_default) = Some (str ''docs'')"
    "list_stores (mock_client []) = Inr Stop"
    "first_named (str ''docs'') Stop = Inr None"
    "vector_store_id hello_request = rq_vector_store_id auth_request"
    "truthy (vector_store_name hello_request) = None"
    by (simp_all add: example_defs truthy_def)
  note T = retrieval_creates_only_by_default_name [where s = empty_state
      and st = docs_default and cl = "mock_client []" and req = auth_request
      and n = "str ''docs''" and m = None and r = hello_request and rt = utc_now]
  from T h have 1: "VsCreate (str ''docs'') None
       \<in> set (new_calls empty_state
                (snd (retrieve docs_default (mock_client []) auth_request empty_state)))"
    by simp
  from T h have "filter is_create
        (new_calls empty_state
           (snd (retrieve docs_default (mock_client []) auth_request empty_state)))
       = filter is_create (new_calls empty_state
           (snd (ingest docs_default (mock_client []) utc_now hello_request empty_state)))"
    by simp
  then have 2: "filter is_create
        (new_calls empty_state
           (snd (retrieve docs_default (mock_client []) auth_request empty_state)))
       = [VsCreate (str ''docs'') None]"
    by (simp add: hello_calls is_create_def)
  show ?thesis using h 1 2 by simp
qed


section \<open>Validation before any remote call\<close>

lemma strip_empty_iff: "strip s = [] \<longleftrightarrow> (\<forall>ch\<in>set s. is_space ch)"
proof -
  have "strip s = [] \<longleftrightarrow> (\<forall>ch\<in>set (dropWhile is_space s). is_space ch)"
    by (simp add: strip_def dropWhile_eq_Nil_conv)
  also have "\<dots> \<longleftrightarrow> dropWhile is_space s = []"
  proof
    assume a: "\<forall>ch\<in>set (dropWhile is_space s). is_space ch"
    show "dropWhile is_space s = []"
    proof (rule ccontr)
      assume n: "dropWhile is_space s \<noteq> []"
      then have "\<not> is_space (hd (dropWhile is_space s))"
        by (rule hd_dropWhile)
      moreover have "hd (dropWhile is_space s) \<in> set (dropWhile is_space s)"
        using n by simp
      ultimately show False using a by blast
    qed
  next
    assume e: "dropWhile is_space s = []"
    show "\<forall>ch\<in>set (dropWhile is_space s). is_space ch"
      unfolding e by simp
  qed
  also have "\<dots> \<longleftrightarrow> (\<forall>ch\<in>set s. is_space ch)"
    by (simp add: dropWhile_eq_Nil_conv)
  finally show ?thesis .
qed

text \<open>
  Claim C7. An ingestion whose content is empty or only whitespace, and a retrieval
  whose query is empty or only whitespace or whose \<open>max_results\<close> is below 1 or above 50,
  fail with a validation error and leave the state as it was: no event is recorded, so
  no list, create, upload or search call is issued. A \<open>max_results\<close> of 1 or of 50, and
  any value between, is accepted with a query that is not blank, and so is a content
  that is not blank.
\<close>

theorem validation_before_remote_calls:
  "((\<forall>ch\<in>set (content args). is_space ch) \<longrightarrow>
      ingest_document st cl rt args s =
        (Inl (ValidationError (str ''The document content is empty after stripping whitespace.'')),
         s))
   \<and> ((\<forall>ch\<in>set (query rargs). is_space ch)
        \<or> (\<exists>m. max_results rargs = Some m \<and> (m < 1 \<or> 50 < m)) \<longrightarrow>
      (\<exists>msg. retrieve_relevant_chunks st cl rargs s = (Inl (ValidationError msg), s)))
   \<and> ((max_results rargs = Some 1 \<or> max_results rargs = Some 50)
        \<and> (\<exists>ch\<in>set (query rargs). \<not> is_space ch) \<longrightarrow>
      RetrieveRelevantChunksRequest_validate rargs = Inr rargs)
   \<and> ((\<forall>m. max_results rargs = Some m \<longrightarrow> 1 \<le> m \<and> m \<le> 50)
        \<and> (\<exists>ch\<in>set (query rargs). \<not> is_space ch) \<longrightarrow>
      RetrieveRelevantChunksRequest_validate rargs = Inr rargs)
   \<and> ((\<exists>ch\<in>set (content args). \<not> is_space ch) \<longrightarrow>
      IngestDocumentRequest_validate args = Inr args)"
proof (intro conjI impI)
  assume "\<forall>ch\<in>set (content args). is_space ch"
  then show "ingest_document st cl rt args s =
        (Inl (ValidationError (str ''The document content is empty after stripping whitespace.'')),
         s)"
    by (simp add: ingest_document_def IngestDocumentRequest_validate_def strip_empty_iff)
next
  assume "(\<forall>ch\<in>set (query rargs). is_space ch)
        \<or> (\<exists>m. max_results rargs = Some m \<and> (m < 1 \<or> 50 < m))"
  then have "\<exists>msg. RetrieveRelevantChunksRequest_validate rargs = Inl (ValidationError msg)"
    by (auto simp: RetrieveRelevantChunksRequest_validate_def strip_empty_iff)
  then show "\<exists>msg. retrieve_relevant_chunks st cl rargs s = (Inl (ValidationError msg), s)"
    by (auto simp: retrieve_relevant_chunks_def)
next
  assume "(max_results rargs = Some 1 \<or> max_results rargs = Some 50)
        \<and> (\<exists>ch\<in>set (query rargs). \<not> is_space ch)"
  then show "RetrieveRelevantChunksRequest_validate rargs = Inr rargs"
    by (auto simp: RetrieveRelevantChunksRequest_validate_def strip_empty_iff)
next
  assume "(\<forall>m. max_results rargs = Some m \<longrightarrow> 1 \<le> m \<and> m \<le> 50)
        \<and> (\<exists>ch\<in>set (query rargs). \<not> is_space ch)"
  then show "RetrieveRelevantChunksRequest_validate rargs = Inr rargs"
    by (cases "max_results rargs")
       (auto simp: RetrieveRelevantChunksRequest_validate_def strip_empty_iff)
next
  assume "\<exists>ch\<in>set (content args). \<not> is_space ch"
  then show "IngestDocumentRequest_validate args = Inr args"
    by (auto simp: IngestDocumentRequest_validate_def strip_empty_iff)
qed

text \<open>
  The theorem at concrete inputs: a content of a space, a tab and a newline; a query of
  two spaces; \<open>max_results\<close> 0 and 51 with a good query; \<open>max_results\<close> 1 and 50.
\<close>

theorem validation_before_remote_calls_witness:
  "ingest_document docs_default (mock_client []) utc_now
      (hello_request\<lparr>content := [32, 9, 10]\<rparr>) empty_state =
     (Inl (ValidationError (str ''The document content is empty after stripping whitespace.'')),
      empty_state)
   \<and> (\<exists>msg. retrieve_relevant_chunks docs_default (mock_client [])
               (auth_request\<lparr>query := str ''  ''\<rparr>) empty_state
             = (Inl (ValidationError msg), empty_state))
   \<and> (\<exists>msg. retrieve_relevant_chunks docs_default (mock_client [])
               (auth_request\<lparr>max_results := Some 0\<rparr>) empty_state
             = (Inl (ValidationError msg), empty_state))
   \<and> (\<exists>msg. retrieve_relevant_chunks docs_default (mock_client [])
               (auth_request\<lparr>max_results := Some 51\<rparr>) empty_state
             = (Inl (ValidationError msg), empty_state))
   \<and> RetrieveRelevantChunksRequest_validate (auth_request\<lparr>max_results := Some 1\<rparr>)
       = Inr (auth_request\<lparr>max_results := Some 1\<rparr>)
   \<and> RetrieveRelevantChunksRequest_validate (auth_request\<lparr>max_results := Some 50\<rparr>)
       = Inr (auth_request\<lparr>max_results := Some 50\<rparr>)
   \<and> IngestDocumentRequest_validate hello_request = Inr hello_request"
proof -
  have sp: "is_space 32" "is_space 9" "is_space 10" "\<not> is_space 97" "\<not> is_space 72"
    "str ''  '' = [32, 32]"
    by (simp_all add: is_space_def str_def)
  have q: "query auth_request = 97 # str ''uth''"
    "content hello_request = 72 # str ''ello world''"
    by (simp_all add: auth_request_def hello_request_def str_def)
  from validation_before_remote_calls [where st = docs_default and cl = "mock_client []"
      and rt = utc_now and s = empty_state
      and args = "hello_request\<lparr>content := [32, 9, 10]\<rparr>"
      and rargs = "auth_request\<lparr>query := str ''  ''\<rparr>"]
  have 1: "ingest_document docs_default (mock_client []) utc_now
      (hello_request\<lparr>content := [32, 9, 10]\<rparr>) empty_state =
     (Inl (ValidationError (str ''The document content is empty after stripping whitespace.'')),
      empty_state)"
    and 2: "\<exists>msg. retrieve_relevant_chunks docs_default (mock_client [])
               (auth_request\<lparr>query := str ''  ''\<rparr>) empty_state
             = (Inl (ValidationError msg), empty_state)"
    by (simp_all add: sp)
  from validation_before_remote_calls [where st = docs_default and cl = "mock_client []"
      and s = empty_state and rargs = "auth_request\<lparr>max_results := Some 0\<rparr>"]
  have 3: "\<exists>msg. retrieve_relevant_chunks docs_default (mock_client [])
               (auth_request\<lparr>max_results := Some 0\<rparr>) empty_state
             = (Inl (ValidationError msg), empty_state)"
    by simp
  from validation_before_remote_calls [where st = docs_default and cl = "mock_client []"
      and s = empty_state and rargs = "auth_request\<lparr>max_results := Some 51\<rparr>"]
  have 4: "\<exists>msg. retrieve_relevant_chunks docs_default (mock_client [])
               (auth_request\<lparr>max_results := Some 51\<rparr>) empty_state
             = (Inl (ValidationError msg), empty_state)"
    by simp
  from validation_before_remote_calls [where args = hello_request
      and rargs = "auth_request\<lparr>max_results := Some 1\<rparr>"]
  have 5: "RetrieveRelevantChunksRequest_validate (auth_request\<lparr>max_results := Some 1\<rparr>)
       = Inr (auth_request\<lparr>max_results := Some 1\<rparr>)"
    and 7: "IngestDocumentRequest_validate hello_request = Inr hello_request"
    by (simp_all add: sp q)
  from validation_before_remote_calls [where
      rargs = "auth_request\<lparr>max_results := Some 50\<rparr>"]
  have 6: "RetrieveRelevantChunksRequest_validate (auth_request\<lparr>max_results := Some 50\<rparr>)
       = Inr (auth_request\<lparr>max_results := Some 50\<rparr>)"
    by (simp add: sp q)
  from 1 2 3 4 5 6 7 show ?thesis by blast
qed


end
